theory Spec2Isabelle
  imports Complex_Main
begin

section \<open>Common conventions\<close>

text \<open>
  Python exceptions are values: a function that can raise returns \<open>error + 'a\<close>
  with \<open>Inl\<close> carrying the exception class.  Tensor arithmetic is modelled over the
  reals: a one-dimensional tensor is a list of reals and a two-dimensional tensor a
  list of rows.
\<close>

datatype error =
    ValueError
  | IndexError
  | KeyError
  | ZeroDivisionError
  | AssertionError
  | TypeError
  | RuntimeError

type_synonym vec = "real list"
type_synonym mat = "real list list"

definition bind_err :: "error + 'a \<Rightarrow> ('a \<Rightarrow> error + 'b) \<Rightarrow> error + 'b" where
  "bind_err r f = (case r of Inl e \<Rightarrow> Inl e | Inr v \<Rightarrow> f v)"

section \<open>MnistTrainer (src/scvi/inference/semi\_supervised\_trainer.py)\<close>

text \<open>
  The trainer's control state: the iteration counter \<open>self.iterate\<close>, the mode of
  \<open>self.model\<close> (\<open>training\<close> is the flag that \<open>model.train()\<close> sets and
  \<open>model.eval()\<close> clears), the attribute \<open>dataset.labelled_fraction\<close> read by
  \<open>loss\<close>, and the number of batches each data loader yields.  The numeric values of
  the losses are computed by the model object, whose class is defined elsewhere; what
  is recorded instead is the sequence of calls made on it: each forward pass with the
  objective, sample count and reparametrisation flag it was given, and each optimizer
  step with the mode the model was in when the step was taken.
\<close>

datatype optimizer = Optim | OptimGen | OptimVarWake

datatype event =
    Forward string "int option" bool
  | Step optimizer bool

record trainer =
  iterate :: nat
  training :: bool
  labelled_fraction :: real
  n_train_batches :: nat
  n_annot_batches :: nat
  events :: "event list"

text \<open>\<open>MnistTrainer.inference\<close>, lines 237-245: the mode switch made before the loop
  over the data loader.\<close>

definition inference :: "trainer \<Rightarrow> bool \<Rightarrow> trainer" where
  "inference t eval_mode =
     (if eval_mode then t\<lparr>training := False\<rparr> else t\<lparr>training := True\<rparr>)"

text \<open>\<open>int(x)\<close> of a float: truncation towards zero.\<close>

definition py_int :: "real \<Rightarrow> int" where
  "py_int x = (if 0 \<le> x then \<lfloor>x\<rfloor> else \<lceil>x\<rceil>)"

text \<open>\<open>MnistTrainer.loss\<close>, lines 186-235.  \<open>int(1 / labelled_fraction)\<close> raises
  ZeroDivisionError for a zero fraction; the two forward passes follow; in mode
  "alternate" the test \<open>self.iterate % s_every\<close> raises ZeroDivisionError when
  \<open>s_every\<close> is zero, and an unknown \<open>mode\<close> raises ValueError; every 100th
  iteration calls \<open>inference\<close> with its default \<open>eval_mode=True\<close>.\<close>

definition MnistTrainer_loss ::
  "trainer \<Rightarrow> string \<Rightarrow> int option \<Rightarrow> bool \<Rightarrow> string \<Rightarrow> error + trainer" where
  "MnistTrainer_loss t loss_type n_samples reparam mode =
     (if labelled_fraction t = 0 then Inl ZeroDivisionError
      else
        let s_every = py_int (1 / labelled_fraction t);
            t1 = t\<lparr>events := events t @ [Forward loss_type n_samples reparam]\<rparr>
        in if mode = ''all'' then
             (if iterate t1 mod 100 = 0 then Inr (inference t1 True) else Inr t1)
           else if mode = ''alternate'' then
             (if s_every = 0 then Inl ZeroDivisionError
              else if iterate t1 mod 100 = 0 then Inr (inference t1 True)
              else Inr t1)
           else Inl ValueError)"

text \<open>\<open>optim.zero_grad(); loss.backward(); optim.step()\<close>: the step is logged with
  the mode of the model at that moment.\<close>

definition optim_step :: "optimizer \<Rightarrow> trainer \<Rightarrow> trainer" where
  "optim_step opt t = t\<lparr>events := events t @ [Step opt (training t)]\<rparr>"

text \<open>\<open>int(n_epochs / 3)\<close>: true division followed by truncation towards zero.\<close>

definition int_third :: "int \<Rightarrow> int" where
  "int_third n = (if 0 \<le> n then n div 3 else - ((- n) div 3))"

text \<open>Lines 146-168: the objective and reparametrisation flag of the wake-phi phase
  for one epoch.\<close>

definition wake_phi_schedule :: "string \<Rightarrow> bool \<Rightarrow> int \<Rightarrow> int \<Rightarrow> string \<times> bool" where
  "wake_phi_schedule wake_psi reparam_wphi n_epochs epoch =
     (if wake_psi = ''REVKL+CUBO'' then
        (if epoch \<le> int_third n_epochs then (''REVKL'', False) else (''CUBO'', True))
      else if wake_psi = ''ELBO+CUBO'' then
        (if epoch \<le> int_third n_epochs then (''ELBO'', True) else (''CUBO'', True))
      else if wake_psi = ''ELBO+REVKL'' then
        (if epoch \<le> int_third n_epochs then (''ELBO'', True) else (''REVKL'', False))
      else (wake_psi, reparam_wphi))"

record train_args =
  n_epochs :: int
  overall_loss :: "string option"
  wake_theta :: string
  wake_psi :: string
  n_samples :: "int option"
  n_samples_phi :: "int option"
  n_samples_theta :: "int option"
  update_mode :: string
  reparam_wphi :: bool

text \<open>Lines 71-76: the two assertions and the overwrite of the per-phase sample
  counts.  The result is the pair \<open>(n_samples_theta, n_samples_phi)\<close> used by the
  loop.\<close>

definition train_samples :: "train_args \<Rightarrow> error + (int option \<times> int option)" where
  "train_samples a =
     (if update_mode a \<notin> set [''all'', ''alternate''] then Inl AssertionError
      else if (n_samples_phi a = None) \<noteq> (n_samples_theta a = None) then Inl AssertionError
      else if n_samples a \<noteq> None then Inr (n_samples a, n_samples a)
      else Inr (n_samples_theta a, n_samples_phi a))"

text \<open>Lines 113-184: the body of the inner loop for one pair of batches.\<close>

definition train_batch ::
  "train_args \<Rightarrow> int option \<Rightarrow> int option \<Rightarrow> int \<Rightarrow> trainer \<Rightarrow> error + trainer" where
  "train_batch a ns_theta ns_phi epoch t =
     (case overall_loss a of
        Some ol \<Rightarrow>
          bind_err (MnistTrainer_loss t ol (n_samples a) True (update_mode a))
            (\<lambda>t1. let t2 = optim_step Optim t1
                  in Inr (t2\<lparr>iterate := iterate t2 + 1\<rparr>))
      | None \<Rightarrow>
          bind_err (MnistTrainer_loss t (wake_theta a) ns_theta True ''all'')
            (\<lambda>t1. let t2 = optim_step OptimGen t1;
                      sched = wake_phi_schedule (wake_psi a) (reparam_wphi a) (n_epochs a) epoch
                  in bind_err (MnistTrainer_loss t2 (fst sched) ns_phi (snd sched) ''all'')
                       (\<lambda>t3. let t4 = optim_step OptimVarWake t3
                             in Inr (t4\<lparr>iterate := iterate t4 + 1\<rparr>))))"

text \<open>The inner loop \<open>zip(self.train_loader, cycle(self.train_annotated_loader))\<close>
  runs once per training batch, and not at all when the annotated loader is empty.\<close>

fun run_batches :: "nat \<Rightarrow> (trainer \<Rightarrow> error + trainer) \<Rightarrow> trainer \<Rightarrow> error + trainer" where
  "run_batches 0 body t = Inr t"
| "run_batches (Suc k) body t = bind_err (body t) (run_batches k body)"

definition batches_per_epoch :: "trainer \<Rightarrow> nat" where
  "batches_per_epoch t = (if n_annot_batches t = 0 then 0 else n_train_batches t)"

fun run_epochs ::
  "int list \<Rightarrow> (int \<Rightarrow> trainer \<Rightarrow> error + trainer) \<Rightarrow> trainer \<Rightarrow> error + trainer" where
  "run_epochs [] body t = Inr t"
| "run_epochs (e # es) body t =
     bind_err (run_batches (batches_per_epoch t) (body e) t) (run_epochs es body)"

text \<open>\<open>MnistTrainer.train\<close>, lines 57-184; \<open>range(n_epochs)\<close> is \<open>[0..n_epochs - 1]\<close>.\<close>

definition train :: "train_args \<Rightarrow> trainer \<Rightarrow> error + trainer" where
  "train a t =
     bind_err (train_samples a)
       (\<lambda>(ns_theta, ns_phi).
          run_epochs [0 .. n_epochs a - 1] (train_batch a ns_theta ns_phi) t)"

text \<open>The modes in which the optimizer steps of a log were taken, in order.\<close>

fun step_modes :: "event list \<Rightarrow> bool list" where
  "step_modes [] = []"
| "step_modes (Step opt b # es) = b # step_modes es"
| "step_modes (Forward lt ns rp # es) = step_modes es"

text \<open>The phases logged by a run, in order.\<close>

fun forwards :: "event list \<Rightarrow> (string \<times> int option \<times> bool) list" where
  "forwards [] = []"
| "forwards (Step opt b # es) = forwards es"
| "forwards (Forward lt ns rp # es) = (lt, ns, rp) # forwards es"


section \<open>SCHANVAE construction (src/scvi/external/schanvi/module/\_schanvae.py)\<close>

text \<open>
  The arguments of \<open>SCHANVAE.__init__\<close> that the constructor itself inspects.  The
  remaining arguments are handed to the constructors of the parent class and of the
  encoder, decoder and classifier networks, which are defined elsewhere.
\<close>

record schanvae_args =
  num_classes_arg :: "nat list"
  y_prior_arg :: "mat option"
  labels_groups_arg :: "int list option"
  use_labels_groups_arg :: bool
  n_version_arg :: int

text \<open>
  The attributes the constructor sets.  \<open>n_groups\<close> and \<open>groups_index\<close> are only
  assigned when label groups are used; they are \<open>0\<close> and \<open>[]\<close> otherwise.  A mask
  of \<open>groups_index\<close> is the uint8 tensor \<open>labels_groups == i\<close>, held as booleans.
\<close>

record schanvae =
  n_version :: int
  num_classes :: "nat list"
  n_labels :: nat
  y_prior :: mat
  use_labels_groups :: bool
  labels_groups :: "int list option"
  n_groups :: nat
  groups_index :: "bool list list"

text \<open>\<open>np.unique\<close>: the sorted distinct elements; \<open>np.arange(n)\<close>: \<open>0, ..., n - 1\<close>.\<close>

definition np_unique :: "int list \<Rightarrow> int list" where
  "np_unique xs = sort (remdups xs)"

definition np_arange :: "nat \<Rightarrow> int list" where
  "np_arange n = map int [0..<n]"

text \<open>
  \<open>SCHANVAE.__init__\<close>, lines 118-192.  \<open>num_classes[len(num_classes) - 1]\<close> raises
  IndexError on an empty list; the default prior \<open>(1 / n_labels) * ones(1, n_labels)\<close>
  raises ZeroDivisionError when there is no label; the two checks of lines 170-176
  raise ValueError.
\<close>

definition SCHANVAE_init :: "schanvae_args \<Rightarrow> error + schanvae" where
  "SCHANVAE_init a =
     (if num_classes_arg a = [] then Inl IndexError
      else
        let nl = last (num_classes_arg a) in
        if y_prior_arg a = None \<and> nl = 0 then Inl ZeroDivisionError
        else
          let self = \<lparr>n_version = n_version_arg a,
                      num_classes = num_classes_arg a,
                      n_labels = nl,
                      y_prior = (case y_prior_arg a of
                                   Some p \<Rightarrow> p
                                 | None \<Rightarrow> [replicate nl (1 / real nl)]),
                      use_labels_groups = use_labels_groups_arg a,
                      labels_groups = labels_groups_arg a,
                      n_groups = 0,
                      groups_index = []\<rparr>
          in if use_labels_groups_arg a then
               (case labels_groups_arg a of
                  None \<Rightarrow> Inl ValueError
                | Some lg \<Rightarrow>
                    let unique_groups = np_unique lg;
                        ng = length unique_groups
                    in if unique_groups \<noteq> np_arange ng then Inl ValueError
                       else Inr (self\<lparr>n_groups := ng,
                                      groups_index :=
                                        map (\<lambda>i. map (\<lambda>l. l = int i) lg) [0..<ng]\<rparr>))
             else Inr self)"

text \<open>Label \<open>j\<close> is selected by a mask; the number of group masks that select it.\<close>

definition in_mask :: "bool list \<Rightarrow> nat \<Rightarrow> bool" where
  "in_mask gm j = (j < length gm \<and> gm ! j)"

definition mask_count :: "schanvae \<Rightarrow> nat \<Rightarrow> nat" where
  "mask_count m j = length (filter (\<lambda>gm. in_mask gm j) (groups_index m))"

section \<open>MuData field wrappers (src/scvi/data/fields/\_mudata.py)\<close>

record base_mudata_wrapper =
  mod_key :: "string option"
  adata_field :: "string option"
  has_preregister :: bool

text \<open>\<open>BaseMuDataWrapper.__init__\<close>, lines 12-19.\<close>

definition BaseMuDataWrapper_init :: "string option \<Rightarrow> bool \<Rightarrow> error + base_mudata_wrapper" where
  "BaseMuDataWrapper_init mk mod_required =
     (if mod_required \<and> mk = None then Inl ValueError
      else Inr \<lparr>mod_key = mk, adata_field = None, has_preregister = False\<rparr>)"

text \<open>The argument of \<open>MuDataWrapper\<close> is either a class (\<open>isinstance(c, type)\<close>
  holds) or an instance of some class; both carry the class name.\<close>

datatype py_object = ClassObject string | InstanceObject string

record mudata_field_class =
  cls_name :: string
  wrapped_cls :: string
  preregister_given :: bool

text \<open>\<open>MuDataWrapper\<close>, lines 84-104: the check, then the new class
  \<open>MuData<name>\<close>.\<close>

definition MuDataWrapper :: "py_object \<Rightarrow> bool \<Rightarrow> error + mudata_field_class" where
  "MuDataWrapper adata_field_cls preregister_fn_given =
     (case adata_field_cls of
        InstanceObject c \<Rightarrow> Inl ValueError
      | ClassObject c \<Rightarrow>
          Inr \<lparr>cls_name = ''MuData'' @ c, wrapped_cls = c,
               preregister_given = preregister_fn_given\<rparr>)"

text \<open>\<open>mudata_field_init\<close>, lines 90-96: the constructor of the class that
  \<open>MuDataWrapper\<close> returns.\<close>

definition mudata_field_init ::
  "mudata_field_class \<Rightarrow> string option \<Rightarrow> bool \<Rightarrow> error + base_mudata_wrapper" where
  "mudata_field_init c mk mod_required =
     bind_err (BaseMuDataWrapper_init mk mod_required)
       (\<lambda>self. Inr (self\<lparr>adata_field := Some (wrapped_cls c),
                          has_preregister := preregister_given c\<rparr>))"

section \<open>Tensor operations\<close>

text \<open>
  Elementwise operations fail with RuntimeError on operands of different shapes.
  (torch would also accept an operand with a dimension of size one and repeat it; no
  such operand arises where every tensor has one row per cell, and that case is not
  modelled.)
\<close>

definition zip_with :: "('a \<Rightarrow> 'b \<Rightarrow> 'c) \<Rightarrow> 'a list \<Rightarrow> 'b list \<Rightarrow> error + 'c list" where
  "zip_with f xs ys =
     (if length xs = length ys then Inr (map2 f xs ys) else Inl RuntimeError)"

definition same_shape :: "'a list list \<Rightarrow> 'b list list \<Rightarrow> bool" where
  "same_shape A B = (length A = length B \<and> list_all2 (\<lambda>a b. length a = length b) A B)"

definition mat_zip_with ::
  "('a \<Rightarrow> 'b \<Rightarrow> 'c) \<Rightarrow> 'a list list \<Rightarrow> 'b list list \<Rightarrow> error + 'c list list" where
  "mat_zip_with f A B =
     (if same_shape A B then Inr (map2 (map2 f) A B) else Inl RuntimeError)"

text \<open>\<open>t.mean()\<close> of a one-dimensional tensor.\<close>

definition mean :: "vec \<Rightarrow> real" where
  "mean xs = sum_list xs / real (length xs)"

text \<open>
  \<open>xs.view(n, -1).t()\<close>: the flat tensor is cut into \<open>n\<close> consecutive blocks, which
  become the columns; entry \<open>(b, c)\<close> of the result is \<open>xs[c * B + b]\<close> with
  \<open>B = len(xs) / n\<close>.  The view fails unless \<open>n\<close> is positive and divides the length.
\<close>

definition view_t :: "nat \<Rightarrow> 'a list \<Rightarrow> error + 'a list list" where
  "view_t n xs =
     (if n = 0 \<or> length xs mod n \<noteq> 0 then Inl RuntimeError
      else Inr (map (\<lambda>b. map (\<lambda>c. xs ! (c * (length xs div n) + b)) [0..<n])
                   [0..<length xs div n]))"

text \<open>\<open>(xs.view(n, -1).t() * probs).sum(dim=1)\<close>.\<close>

definition weighted_by :: "nat \<Rightarrow> vec \<Rightarrow> mat \<Rightarrow> error + vec" where
  "weighted_by n xs probs =
     bind_err (view_t n xs)
       (\<lambda>v. bind_err (mat_zip_with (*) v probs) (\<lambda>w. Inr (map sum_list w)))"

subsection \<open>Distributions\<close>

text \<open>
  The closed forms of \<open>torch.distributions\<close>, over the reals: the KL divergence
  between two normal distributions given by mean and scale, the log-density of a
  normal distribution, and the KL divergence between two categorical distributions
  given by (unnormalised) probabilities, where a class of probability zero
  contributes nothing.
\<close>

definition kl_normal :: "real \<Rightarrow> real \<Rightarrow> real \<Rightarrow> real \<Rightarrow> real" where
  "kl_normal m1 s1 m2 s2 =
     (let var_ratio = (s1 / s2)\<^sup>2; t1 = ((m1 - m2) / s2)\<^sup>2
      in (var_ratio + t1 - 1 - ln var_ratio) / 2)"

definition normal_log_prob :: "real \<Rightarrow> real \<Rightarrow> real \<Rightarrow> real" where
  "normal_log_prob m s v = - ((v - m)\<^sup>2) / (2 * s\<^sup>2) - ln s - ln (sqrt (2 * pi))"

definition normalize :: "vec \<Rightarrow> vec" where
  "normalize p = map (\<lambda>v. v / sum_list p) p"

definition kl_categorical :: "vec \<Rightarrow> vec \<Rightarrow> real" where
  "kl_categorical p q =
     sum_list (map2 (\<lambda>a b. if a = 0 then 0 else a * (ln a - ln b))
                 (normalize p) (normalize q))"

section \<open>The networks of the model\<close>

text \<open>
  The encoder, decoder and classifier networks, the reconstruction loss and the
  library prior of the parent class, and the hierarchical loss network are
  differentiable functions defined outside the source file; they are parameters of
  the model.  The classifier's result has type \<open>'c\<close>: \<open>loss\<close> reads the element at index
  1 of it as the matrix of label probabilities, the grouped branch of \<open>classify\<close>
  uses it as one matrix.  \<open>classification_loss\<close> stands for the method of that name (lines
  227-258), whose value is the sum of the two losses of the hierarchical loss network
  on the labelled batch.
\<close>

record tensors =
  X_KEY :: mat
  BATCH_KEY :: "nat list"
  LABELS_KEY :: "nat list list option"
  CONT_COVS_KEY :: "mat option"
  CAT_COVS_KEY :: "mat option"

record 'c networks =
  log_variational :: bool
  encode_covariates :: bool
  use_observed_lib_size :: bool
  z_encoder :: "mat \<Rightarrow> nat list option \<Rightarrow> mat list \<Rightarrow> mat \<times> mat \<times> mat"
  classifier :: "mat \<Rightarrow> 'c"
  classifier_groups :: "mat \<Rightarrow> mat"
  encoder_z2_z1 :: "mat \<Rightarrow> mat \<Rightarrow> mat \<times> mat \<times> mat"
  decoder_z1_z2 :: "mat \<Rightarrow> mat \<Rightarrow> mat \<times> mat"
  get_reconstruction_loss :: "mat \<Rightarrow> mat \<Rightarrow> mat \<Rightarrow> mat \<Rightarrow> vec"
  compute_local_library_params :: "nat list \<Rightarrow> mat \<times> mat"
  classification_loss :: "tensors \<Rightarrow> real"

section \<open>SCHANVAE.classify\<close>

text \<open>\<open>t[:, group_index]\<close> on one row, and the assignment \<open>t[:, group_index] = vs\<close>
  on one row.\<close>

definition masked_select :: "bool list \<Rightarrow> 'a list \<Rightarrow> 'a list" where
  "masked_select gm xs = map snd (filter fst (zip gm xs))"

fun masked_assign :: "bool list \<Rightarrow> 'a list \<Rightarrow> 'a list \<Rightarrow> 'a list" where
  "masked_assign (True # gm) (x # xs) (v # vs) = v # masked_assign gm xs vs"
| "masked_assign (False # gm) (x # xs) vs = x # masked_assign gm xs vs"
| "masked_assign gm xs vs = xs"

text \<open>Lines 218-222 on one row of the batch: the classifier output of the group is
  normalised by its sum plus \<open>1e-8\<close> and then scaled by the probability of the
  group.\<close>

definition group_row :: "bool list \<Rightarrow> nat \<Rightarrow> vec \<Rightarrow> vec \<Rightarrow> vec \<Rightarrow> vec" where
  "group_row group_index i unw_row wg_row w_row =
     (let unw_y_g = masked_select group_index unw_row;
          w1 = masked_assign group_index w_row
                 (map (\<lambda>v. v / (sum_list unw_y_g + 1 / 10 ^ 8)) unw_y_g);
          w2 = masked_assign group_index w1
                 (map (\<lambda>v. v * wg_row ! i) (masked_select group_index w1))
      in w2)"

text \<open>The loop of lines 217-222.  A mask whose length is not the number of label
  columns, or a group without a column in \<open>w_g\<close>, raises IndexError.\<close>

fun group_loop :: "mat \<Rightarrow> mat \<Rightarrow> (nat \<times> bool list) list \<Rightarrow> mat \<Rightarrow> error + mat" where
  "group_loop unw_y w_g [] w_y = Inr w_y"
| "group_loop unw_y w_g ((i, group_index) # rest) w_y =
     (if list_ex (\<lambda>r. length r \<noteq> length group_index) unw_y then Inl IndexError
      else if list_ex (\<lambda>g. length g \<le> i) w_g then Inl IndexError
      else if length w_g \<noteq> length unw_y then Inl RuntimeError
      else group_loop unw_y w_g rest
             (map (\<lambda>(w, u, g). group_row group_index i u g w)
                (zip w_y (zip unw_y w_g))))"

text \<open>\<open>torch.split(cat_covs, 1, dim=1)\<close>: the columns, each as a one-column matrix.\<close>

definition split_cols :: "mat \<Rightarrow> mat list" where
  "split_cols c =
     map (\<lambda>j. map (\<lambda>r. [r ! j]) c) [0..<(case c of [] \<Rightarrow> 0 | r # rs \<Rightarrow> length r)]"

text \<open>Lines 196-212: the latent mean \<open>qz_m\<close> that is classified.\<close>

definition classify_latent ::
  "'c networks \<Rightarrow> mat \<Rightarrow> nat list option \<Rightarrow> mat option \<Rightarrow> mat option \<Rightarrow> error + mat" where
  "classify_latent nets x0 batch_index cont_covs cat_covs =
     (let x1 = (if log_variational nets then map (map (\<lambda>v. ln (1 + v))) x0 else x0);
          categorical_input =
            (case cat_covs of
               Some c \<Rightarrow> if encode_covariates nets then split_cols c else []
             | None \<Rightarrow> [])
      in bind_err
           (case cont_covs of
              Some c \<Rightarrow>
                if encode_covariates nets then zip_with (@) x1 c else Inr x1
            | None \<Rightarrow> Inr x1)
           (\<lambda>encoder_input.
              Inr (fst (z_encoder nets encoder_input batch_index categorical_input))))"

text \<open>\<open>SCHANVAE.classify\<close>, lines 194-225.\<close>

definition classify ::
  "schanvae \<Rightarrow> mat networks \<Rightarrow> mat \<Rightarrow> nat list option \<Rightarrow> mat option \<Rightarrow> mat option
     \<Rightarrow> error + mat" where
  "classify m nets x0 batch_index cont_covs cat_covs =
     bind_err (classify_latent nets x0 batch_index cont_covs cat_covs)
       (\<lambda>zl.
          if use_labels_groups m then
            (let w_g = classifier_groups nets zl;
                 unw_y = classifier nets zl;
                 w_y = map (map (\<lambda>v. 0)) unw_y
             in group_loop unw_y w_g
                  (zip [0..<length (groups_index m)] (groups_index m)) w_y)
          else Inr (classifier nets zl))"

text \<open>The sum of a row of the output over the member labels of group \<open>i\<close>.\<close>

definition group_sum :: "schanvae \<Rightarrow> nat \<Rightarrow> vec \<Rightarrow> real" where
  "group_sum m i row = sum_list (masked_select (groups_index m ! i) row)"

text \<open>Two masks select no common position.\<close>

definition disj_masks :: "bool list \<Rightarrow> bool list \<Rightarrow> bool" where
  "disj_masks g k = list_all2 (\<lambda>a b. \<not> (a \<and> b)) g k"

text \<open>
  A concrete grouped model for three labels in two groups (labels 0 and 1 in group
  0, label 2 in group 1), with a classifier that answers \<open>(1/2, 1/4, 1/4)\<close> and a
  group classifier that answers \<open>(3/4, 1/4)\<close> for the one cell of the batch.
\<close>

definition grouped_model :: schanvae where
  "grouped_model =
     \<lparr>n_version = 0, num_classes = [2, 3], n_labels = 3,
      y_prior = [[1 / 3, 1 / 3, 1 / 3]], use_labels_groups = True,
      labels_groups = Some [0, 0, 1], n_groups = 2,
      groups_index = [[True, True, False], [False, False, True]]\<rparr>"

definition grouped_networks :: "mat networks" where
  "grouped_networks =
     \<lparr>log_variational = False, encode_covariates = False, use_observed_lib_size = True,
      z_encoder = (\<lambda>x b c. (x, x, x)),
      classifier = (\<lambda>z. [[1 / 2, 1 / 4, 1 / 4]]),
      classifier_groups = (\<lambda>z. [[3 / 4, 1 / 4]]),
      encoder_z2_z1 = (\<lambda>z y. (z, z, z)),
      decoder_z1_z2 = (\<lambda>z y. (z, z)),
      get_reconstruction_loss = (\<lambda>x r d p. map (\<lambda>row. 0) x),
      compute_local_library_params = (\<lambda>b. ([], [])),
      classification_loss = (\<lambda>t. 0)\<rparr>"

section \<open>SCHANVAE.loss\<close>

text \<open>The one-hot row of label \<open>l\<close> among \<open>n\<close> labels.\<close>

definition one_hot :: "nat \<Rightarrow> nat \<Rightarrow> vec" where
  "one_hot l n = map (\<lambda>k. if k = l then 1 else 0) [0..<n]"

text \<open>
  Modelled from the spec: \<open>broadcast_labels\<close> (module \<open>scvi.module._utils\<close>) is
  imported by the source file but defined outside it.  The spec has the unlabelled
  loss marginalise "over all label values via broadcast expansion", and the source
  notes at the call that for \<open>z1\<close> of size \<open>(batch_size, latent)\<close> the result is of size
  \<open>(n_labels * batch_size, latent)\<close>.  Without labels, every label value in turn is
  paired with the whole batch: the one-hot rows of label 0 for all cells come first,
  then those of label 1, and so on, next to \<open>n_broadcast\<close> copies of the batch.  With
  labels, each cell gets the one-hot row of its label and the batch is unchanged.
\<close>

definition broadcast_labels :: "nat list option \<Rightarrow> mat \<Rightarrow> nat \<Rightarrow> error + (mat \<times> mat)" where
  "broadcast_labels y o1 n_broadcast =
     (case y of
        None \<Rightarrow>
          Inr (concat (map (\<lambda>c. replicate (length o1) (one_hot c n_broadcast))
                         [0..<n_broadcast]),
               concat (replicate n_broadcast o1))
      | Some ls \<Rightarrow>
          if list_ex (\<lambda>l. n_broadcast \<le> l) ls then Inl RuntimeError
          else Inr (map (\<lambda>l. one_hot l n_broadcast) ls, o1))"

text \<open>The entries of \<open>inference_outputs\<close> and \<open>generative_outputs\<close> that the loss
  reads; \<open>z_sample\<close> is the entry \<open>"z"\<close>.\<close>

record inference_outputs =
  qz_m :: mat
  qz_v :: mat
  z_sample :: mat
  ql_m :: mat
  ql_v :: mat

record generative_outputs =
  px_r :: mat
  px_rate :: mat
  px_dropout :: mat

text \<open>\<open>kl_divergence_l\<close> is a per-cell tensor, or the scalar tensor \<open>0.0\<close> when the
  observed library size is used.\<close>

datatype lib_kl = LScalar real | LVec vec

record loss_terms =
  reconst_loss :: vec
  loss_z1_weight :: vec
  loss_z1_unweight :: vec
  kl_divergence_z2 :: vec
  kl_divergence_l :: lib_kl

text \<open>\<open>kl(Normal(m, sqrt(v)), Normal(m', sqrt(v'))).sum(dim=1)\<close> and
  \<open>Normal(m, sqrt(v)).log_prob(x).sum(dim=-1)\<close> on matrices.\<close>

definition kl_normal_rows :: "mat \<Rightarrow> mat \<Rightarrow> mat \<Rightarrow> mat \<Rightarrow> error + vec" where
  "kl_normal_rows m1 v1 m2 v2 =
     bind_err (mat_zip_with Pair m1 v1)
       (\<lambda>p. bind_err (mat_zip_with Pair m2 v2)
          (\<lambda>q. bind_err
                  (mat_zip_with (\<lambda>(a, b) (c, d). kl_normal a (sqrt b) c (sqrt d)) p q)
                  (\<lambda>k. Inr (map sum_list k))))"

definition log_prob_rows :: "mat \<Rightarrow> mat \<Rightarrow> mat \<Rightarrow> error + vec" where
  "log_prob_rows m1 v1 xs =
     bind_err (mat_zip_with Pair m1 v1)
       (\<lambda>p. bind_err (mat_zip_with (\<lambda>(a, b) v. normal_log_prob a (sqrt b) v) p xs)
          (\<lambda>k. Inr (map sum_list k)))"

text \<open>Lines 280-287: the finest-level labels \<open>y[:, -1]\<close> when labels are fed.\<close>

definition fed_labels :: "tensors \<Rightarrow> bool \<Rightarrow> error + nat list option" where
  "fed_labels tn feed_labels =
     (if feed_labels then
        (case LABELS_KEY tn of
           None \<Rightarrow> Inl KeyError
         | Some ys \<Rightarrow>
             if list_ex (\<lambda>r. r = []) ys then Inl IndexError
             else Inr (Some (map last ys)))
      else Inr None)"

text \<open>Lines 270-328: the terms from which both variants of the loss are built.\<close>

definition loss_terms_of ::
  "schanvae \<Rightarrow> 'c networks \<Rightarrow> tensors \<Rightarrow> inference_outputs \<Rightarrow> generative_outputs \<Rightarrow> bool
     \<Rightarrow> error + loss_terms" where
  "loss_terms_of m nets tn io gen feed_labels =
     bind_err (fed_labels tn feed_labels)
       (\<lambda>y. bind_err (broadcast_labels y (z_sample io) (n_labels m))
          (\<lambda>(ys, z1s).
             let (qz2_m, qz2_v, z2) = encoder_z2_z1 nets z1s ys;
                 (pz1_m, pz1_v) = decoder_z1_z2 nets z2 ys;
                 rl = get_reconstruction_loss nets (X_KEY tn) (px_rate gen) (px_r gen)
                        (px_dropout gen)
             in bind_err
                  (kl_normal_rows qz2_m qz2_v (map (map (\<lambda>v. 0)) qz2_m)
                     (map (map (\<lambda>v. 1)) qz2_v))
                  (\<lambda>kz2. bind_err (log_prob_rows pz1_m pz1_v z1s)
                     (\<lambda>lu. bind_err (log_prob_rows (qz_m io) (qz_v io) (z_sample io))
                        (\<lambda>lw. bind_err
                           (if \<not> use_observed_lib_size nets then
                              (let (lm, lv) = compute_local_library_params nets (BATCH_KEY tn)
                               in bind_err (kl_normal_rows (ql_m io) (ql_v io) lm lv)
                                    (\<lambda>k. Inr (LVec k)))
                            else Inr (LScalar 0))
                           (\<lambda>kl. Inr \<lparr>reconst_loss = rl,
                                      loss_z1_weight = lw,
                                      loss_z1_unweight = map uminus lu,
                                      kl_divergence_z2 = kz2,
                                      kl_divergence_l = kl\<rparr>))))))"

definition lib_mean :: "lib_kl \<Rightarrow> real" where
  "lib_mean k = (case k of LScalar s \<Rightarrow> s | LVec v \<Rightarrow> mean v)"

definition add_lib :: "vec \<Rightarrow> lib_kl \<Rightarrow> error + vec" where
  "add_lib k l = (case l of LScalar s \<Rightarrow> Inr (map (\<lambda>v. v + s) k) | LVec v \<Rightarrow> zip_with (+) k v)"

text \<open>The result object: the scalar loss, the reconstruction loss, the local KL
  (a dictionary of the two KL tensors in the first variant, one tensor otherwise) and
  the named scalar metrics.\<close>

datatype kl_local = KLDict vec lib_kl | KLTensor vec

record loss_recorder =
  rec_loss :: real
  rec_reconstruction_loss :: vec
  rec_kl_local :: kl_local
  rec_extra :: "(string \<times> real) list"

text \<open>Lines 331-359: the variant \<open>n_version = 1\<close> on labelled tensors.\<close>

definition loss_of_means ::
  "'c networks \<Rightarrow> loss_terms \<Rightarrow> real \<Rightarrow> tensors \<Rightarrow> real option \<Rightarrow> error + loss_recorder" where
  "loss_of_means nets t kl_weight lt classification_ratio =
     (let loss_z1_weight_mean = mean (loss_z1_weight t);
          loss_z1_unweight_mean = mean (loss_z1_unweight t);
          kl_divergence_z2_mean = mean (kl_divergence_z2 t);
          kl_divergence_l_mean = lib_mean (kl_divergence_l t);
          loss0 = mean (reconst_loss t) + loss_z1_weight_mean + loss_z1_unweight_mean
                  + kl_weight * (kl_divergence_z2_mean + kl_divergence_l_mean);
          classifier_loss = classification_loss nets lt
      in case classification_ratio of
           None \<Rightarrow> Inl TypeError
         | Some cr \<Rightarrow>
             Inr \<lparr>rec_loss = loss0 + classifier_loss * cr,
                  rec_reconstruction_loss = reconst_loss t,
                  rec_kl_local = KLDict (kl_divergence_z2 t) (kl_divergence_l t),
                  rec_extra =
                    [(''loss_z1_weight_mean'', loss_z1_weight_mean),
                     (''loss_z1_unweight_mean'', loss_z1_unweight_mean),
                     (''kl_divergence_z2_mean'', kl_divergence_z2_mean),
                     (''kl_divergence_l_mean'', kl_divergence_l_mean),
                     (''classification_loss'', classifier_loss),
                     (''n_labelled_tensors'', real (length (X_KEY lt)))]\<rparr>)"

text \<open>\<open>self.classifier(z1)[1]\<close>.\<close>

definition level_probs :: "mat list \<Rightarrow> error + mat" where
  "level_probs out = (if 1 < length out then Inr (out ! 1) else Inl IndexError)"

text \<open>Lines 371-374: the categorical KL of each row of \<open>probs\<close> against
  \<open>y_prior.repeat(probs.size(0), 1)\<close>.\<close>

definition kl_divergence_cat_of :: "mat \<Rightarrow> mat \<Rightarrow> error + vec" where
  "kl_divergence_cat_of probs prior =
     (let rep = concat (replicate (length probs) prior)
      in if same_shape probs rep then Inr (map2 kl_categorical probs rep)
         else Inl RuntimeError)"

text \<open>Lines 363-413: the marginalised loss, with the classification term added for
  the variant \<open>n_version = 0\<close> on labelled tensors.\<close>

definition loss_marginal ::
  "schanvae \<Rightarrow> mat list networks \<Rightarrow> inference_outputs \<Rightarrow> loss_terms \<Rightarrow> real
     \<Rightarrow> tensors option \<Rightarrow> real option \<Rightarrow> error + loss_recorder" where
  "loss_marginal m nets io t kl_weight labelled_tensors classification_ratio =
     bind_err (level_probs (classifier nets (z_sample io)))
       (\<lambda>probs. bind_err (weighted_by (n_labels m) (loss_z1_unweight t) probs)
          (\<lambda>wu. bind_err (zip_with (+) (loss_z1_weight t) wu)
             (\<lambda>s. bind_err (zip_with (+) (reconst_loss t) s)
                (\<lambda>rl. bind_err (weighted_by (n_labels m) (kl_divergence_z2 t) probs)
                   (\<lambda>k0. bind_err (kl_divergence_cat_of probs (y_prior m))
                      (\<lambda>kc. bind_err (zip_with (+) k0 kc)
                         (\<lambda>k1. bind_err (add_lib k1 (kl_divergence_l t))
                            (\<lambda>kd. bind_err (zip_with (\<lambda>r k. r + k * kl_weight) rl kd)
                               (\<lambda>tot.
                                  let loss0 = mean tot;
                                      extra =
                                        [(''loss_z1_weight_mean'', mean (loss_z1_weight t)),
                                         (''kl_divergence_cat_mean'', mean kc),
                                         (''loss_z1_unweight_mean'', mean (loss_z1_unweight t)),
                                         (''kl_divergence_z2_mean'', mean (kl_divergence_z2 t)),
                                         (''kl_divergence_l_mean'', lib_mean (kl_divergence_l t))]
                                  in case (if n_version m = 0 then labelled_tensors else None) of
                                       Some lt \<Rightarrow>
                                         (let classifier_loss = classification_loss nets lt
                                          in case classification_ratio of
                                               None \<Rightarrow> Inl TypeError
                                             | Some cr \<Rightarrow>
                                                 Inr \<lparr>rec_loss = loss0 + classifier_loss * cr,
                                                      rec_reconstruction_loss = rl,
                                                      rec_kl_local = KLTensor kd,
                                                      rec_extra = extra @
                                                        [(''classification_loss'', classifier_loss)]\<rparr>)
                                     | None \<Rightarrow>
                                         Inr \<lparr>rec_loss = loss0,
                                              rec_reconstruction_loss = rl,
                                              rec_kl_local = KLTensor kd,
                                              rec_extra = extra\<rparr>)))))))))"

text \<open>\<open>SCHANVAE.loss\<close>, lines 260-413.\<close>

definition SCHANVAE_loss ::
  "schanvae \<Rightarrow> mat list networks \<Rightarrow> tensors \<Rightarrow> inference_outputs \<Rightarrow> generative_outputs
     \<Rightarrow> bool \<Rightarrow> real \<Rightarrow> tensors option \<Rightarrow> real option \<Rightarrow> error + loss_recorder" where
  "SCHANVAE_loss m nets tn io gen feed_labels kl_weight labelled_tensors classification_ratio =
     bind_err (loss_terms_of m nets tn io gen feed_labels)
       (\<lambda>t. case (if n_version m = 1 then labelled_tensors else None) of
               Some lt \<Rightarrow> loss_of_means nets t kl_weight lt classification_ratio
             | None \<Rightarrow>
                 loss_marginal m nets io t kl_weight labelled_tensors classification_ratio)"

subsection \<open>The two objectives as formulas\<close>

text \<open>
  The probability-weighted sum over the label values of a broadcast tensor for cell
  \<open>b\<close> of a batch of \<open>B\<close> cells: the entry for label \<open>c\<close> and cell \<open>b\<close> is at position
  \<open>c * B + b\<close>.
\<close>

definition marginalized :: "nat \<Rightarrow> nat \<Rightarrow> vec \<Rightarrow> mat \<Rightarrow> nat \<Rightarrow> real" where
  "marginalized n B xs probs b = (\<Sum>c\<leftarrow>[0..<n]. xs ! (c * B + b) * probs ! b ! c)"

definition lib_at :: "lib_kl \<Rightarrow> nat \<Rightarrow> real" where
  "lib_at k b = (case k of LScalar s \<Rightarrow> s | LVec v \<Rightarrow> v ! b)"

text \<open>The marginalised objective: the batch mean of the reconstruction term plus
  the two \<open>z1\<close> terms plus \<open>kl_weight\<close> times the three KL terms.\<close>

definition marginal_objective :: "nat \<Rightarrow> nat \<Rightarrow> loss_terms \<Rightarrow> mat \<Rightarrow> vec \<Rightarrow> real \<Rightarrow> real" where
  "marginal_objective n B t probs prior kl_weight =
     mean (map (\<lambda>b. reconst_loss t ! b + (loss_z1_weight t ! b
                       + marginalized n B (loss_z1_unweight t) probs b)
                     + (marginalized n B (kl_divergence_z2 t) probs b
                        + kl_categorical (probs ! b) prior
                        + lib_at (kl_divergence_l t) b) * kl_weight)
             [0..<B])"

text \<open>The objective of per-term means.\<close>

definition means_objective :: "loss_terms \<Rightarrow> real \<Rightarrow> real" where
  "means_objective t kl_weight =
     mean (reconst_loss t) + mean (loss_z1_weight t) + mean (loss_z1_unweight t)
     + kl_weight * (mean (kl_divergence_z2 t) + lib_mean (kl_divergence_l t))"

text \<open>
  The shapes of a batch of \<open>B > 0\<close> cells with \<open>n > 0\<close> labels: one reconstruction
  loss and one row of \<open>n\<close> label probabilities per cell, one KL term per label and
  cell, and a library KL per cell unless it is the scalar.
\<close>

definition network_shaped :: "nat \<Rightarrow> nat \<Rightarrow> loss_terms \<Rightarrow> mat \<Rightarrow> bool" where
  "network_shaped n B t probs \<longleftrightarrow>
     0 < n \<and> 0 < B \<and>
     length (reconst_loss t) = B \<and>
     length (kl_divergence_z2 t) = n * B \<and>
     (case kl_divergence_l t of LScalar s \<Rightarrow> True | LVec v \<Rightarrow> length v = B) \<and>
     length probs = B \<and> list_all (\<lambda>r. length r = n) probs"

definition batch_shaped :: "nat \<Rightarrow> nat \<Rightarrow> loss_terms \<Rightarrow> mat \<Rightarrow> bool" where
  "batch_shaped n B t probs \<longleftrightarrow>
     network_shaped n B t probs \<and>
     length (loss_z1_weight t) = B \<and>
     length (loss_z1_unweight t) = n * B"

text \<open>
  A concrete model with two labels and the uniform prior, on a batch of one cell
  with a one-dimensional latent code.  The second encoder and the decoder return
  their input as mean with unit variance, the reconstruction loss is zero, the
  classification loss is one and the classifier puts all mass on label 0, which is
  the cell's finest-level label.
\<close>

definition two_label_model :: schanvae where
  "two_label_model =
     \<lparr>n_version = 0, num_classes = [1, 2], n_labels = 2,
      y_prior = [[1 / 2, 1 / 2]], use_labels_groups = False,
      labels_groups = None, n_groups = 0, groups_index = []\<rparr>"

definition two_label_networks :: "mat list networks" where
  "two_label_networks =
     \<lparr>log_variational = False, encode_covariates = False, use_observed_lib_size = True,
      z_encoder = (\<lambda>x b c. (x, x, x)),
      classifier = (\<lambda>z. [map (\<lambda>r. [1]) z, map (\<lambda>r. [1, 0]) z]),
      classifier_groups = (\<lambda>z. z),
      encoder_z2_z1 = (\<lambda>z y. (z, map (map (\<lambda>v. 1)) z, z)),
      decoder_z1_z2 = (\<lambda>z y. (z, map (map (\<lambda>v. 1)) z)),
      get_reconstruction_loss = (\<lambda>x r d p. map (\<lambda>row. 0) x),
      compute_local_library_params = (\<lambda>b. ([], [])),
      classification_loss = (\<lambda>t. 1)\<rparr>"

definition one_cell :: tensors where
  "one_cell =
     \<lparr>X_KEY = [[1]], BATCH_KEY = [0], LABELS_KEY = Some [[0, 0]],
      CONT_COVS_KEY = None, CAT_COVS_KEY = None\<rparr>"

definition one_cell_inference :: inference_outputs where
  "one_cell_inference =
     \<lparr>qz_m = [[0]], qz_v = [[1]], z_sample = [[0]], ql_m = [[0]], ql_v = [[1]]\<rparr>"

definition one_cell_generative :: generative_outputs where
  "one_cell_generative = \<lparr>px_r = [[1]], px_rate = [[1]], px_dropout = [[0]]\<rparr>"

text \<open>The objective that keeps, of the per-label terms of each cell, those of the
  cell's label.\<close>

definition collapsed_objective ::
  "nat \<Rightarrow> nat \<Rightarrow> loss_terms \<Rightarrow> nat list \<Rightarrow> vec \<Rightarrow> real \<Rightarrow> real" where
  "collapsed_objective n B t labels prior kl_weight =
     mean (map (\<lambda>b. reconst_loss t ! b + (loss_z1_weight t ! b
                       + loss_z1_unweight t ! (labels ! b * B + b))
                     + (kl_divergence_z2 t ! (labels ! b * B + b)
                        + kl_categorical (one_hot (labels ! b) n) prior
                        + lib_at (kl_divergence_l t) b) * kl_weight)
             [0..<B])"


section \<open>Properties of MnistTrainer\<close>

lemma bind_err_Inr:
  "bind_err r f = Inr y \<Longrightarrow> \<exists>v. r = Inr v \<and> f v = Inr y"
  by (cases r) (simp_all add: bind_err_def)

lemma step_modes_append: "step_modes (xs @ ys) = step_modes xs @ step_modes ys"
  by (induction xs rule: step_modes.induct) simp_all

text \<open>
  C10.  Whenever \<open>n_samples\<close> is not None, both per-phase sample counts are
  overwritten with it; they are kept only when \<open>n_samples\<close> is None; the call fails
  with an assertion error when exactly one of the two is provided; and with
  \<open>n_samples\<close> not None the whole run of \<open>train\<close> is the same whatever pair of values
  the caller passes for \<open>n_samples_phi\<close> and \<open>n_samples_theta\<close>.
\<close>

theorem train_samples_overwrite:
  "(update_mode a \<in> {''all'', ''alternate''} \<and>
    (n_samples_phi a = None) = (n_samples_theta a = None) \<longrightarrow>
      train_samples a =
        Inr (if n_samples a \<noteq> None then (n_samples a, n_samples a)
             else (n_samples_theta a, n_samples_phi a))) \<and>
   ((n_samples_phi a = None) \<noteq> (n_samples_theta a = None) \<longrightarrow>
      train_samples a = Inl AssertionError \<and> train a t = Inl AssertionError) \<and>
   (n_samples a \<noteq> None \<and> (n_samples_phi a = None) = (n_samples_theta a = None) \<and>
    (p = None) = (q = None) \<longrightarrow>
      train (a\<lparr>n_samples_phi := p, n_samples_theta := q\<rparr>) t = train a t)"
proof -
  have b: "train_batch (a\<lparr>n_samples_phi := p, n_samples_theta := q\<rparr>) = train_batch a"
    by (simp add: fun_eq_iff train_batch_def split: option.splits)
  have 1: "update_mode a \<in> {''all'', ''alternate''} \<and>
    (n_samples_phi a = None) = (n_samples_theta a = None) \<longrightarrow>
      train_samples a =
        Inr (if n_samples a \<noteq> None then (n_samples a, n_samples a)
             else (n_samples_theta a, n_samples_phi a))"
    by (auto simp: train_samples_def)
  have 2: "(n_samples_phi a = None) \<noteq> (n_samples_theta a = None) \<longrightarrow>
      train_samples a = Inl AssertionError \<and> train a t = Inl AssertionError"
    by (auto simp: train_def train_samples_def bind_err_def)
  have 3: "n_samples a \<noteq> None \<and> (n_samples_phi a = None) = (n_samples_theta a = None) \<and>
    (p = None) = (q = None) \<longrightarrow>
      train (a\<lparr>n_samples_phi := p, n_samples_theta := q\<rparr>) t = train a t"
    by (auto simp: train_def train_samples_def b bind_err_def)
  from 1 2 3 show ?thesis by blast
qed

theorem train_samples_overwrite_witness:
  "train_samples \<lparr>n_epochs = 3, overall_loss = None, wake_theta = ''ELBO'',
       wake_psi = ''CUBO'', n_samples = Some 1, n_samples_phi = Some 7,
       n_samples_theta = Some 9, update_mode = ''alternate'', reparam_wphi = True\<rparr>
     = Inr (Some 1, Some 1) \<and>
   train_samples \<lparr>n_epochs = 3, overall_loss = None, wake_theta = ''ELBO'',
       wake_psi = ''CUBO'', n_samples = None, n_samples_phi = Some 7,
       n_samples_theta = Some 9, update_mode = ''alternate'', reparam_wphi = True\<rparr>
     = Inr (Some 9, Some 7) \<and>
   train_samples \<lparr>n_epochs = 3, overall_loss = None, wake_theta = ''ELBO'',
       wake_psi = ''CUBO'', n_samples = Some 1, n_samples_phi = Some 7,
       n_samples_theta = None, update_mode = ''alternate'', reparam_wphi = True\<rparr>
     = Inl AssertionError \<and>
   train \<lparr>n_epochs = 3, overall_loss = None, wake_theta = ''ELBO'',
       wake_psi = ''CUBO'', n_samples = Some 1, n_samples_phi = Some 7,
       n_samples_theta = Some 9, update_mode = ''alternate'', reparam_wphi = True\<rparr>
     \<lparr>iterate = 0, training = True, labelled_fraction = 1 / 10, n_train_batches = 2,
      n_annot_batches = 1, events = []\<rparr>
   = train \<lparr>n_epochs = 3, overall_loss = None, wake_theta = ''ELBO'',
       wake_psi = ''CUBO'', n_samples = Some 1, n_samples_phi = None,
       n_samples_theta = None, update_mode = ''alternate'', reparam_wphi = True\<rparr>
     \<lparr>iterate = 0, training = True, labelled_fraction = 1 / 10, n_train_batches = 2,
      n_annot_batches = 1, events = []\<rparr>"
proof -
  have 1: "train_samples
       \<lparr>n_epochs = 3, overall_loss = None, wake_theta = ''ELBO'',
       wake_psi = ''CUBO'', n_samples = Some 1, n_samples_phi = Some 7,
       n_samples_theta = Some 9, update_mode = ''alternate'', reparam_wphi = True\<rparr> = Inr (Some 1, Some 1)"
    using train_samples_overwrite [where a = "\<lparr>n_epochs = 3, overall_loss = None, wake_theta = ''ELBO'',
       wake_psi = ''CUBO'', n_samples = Some 1, n_samples_phi = Some 7,
       n_samples_theta = Some 9, update_mode = ''alternate'', reparam_wphi = True\<rparr>", THEN conjunct1] by simp
  have 2: "train_samples
       \<lparr>n_epochs = 3, overall_loss = None, wake_theta = ''ELBO'',
       wake_psi = ''CUBO'', n_samples = None, n_samples_phi = Some 7,
       n_samples_theta = Some 9, update_mode = ''alternate'', reparam_wphi = True\<rparr> = Inr (Some 9, Some 7)"
    using train_samples_overwrite [where a = "\<lparr>n_epochs = 3, overall_loss = None, wake_theta = ''ELBO'',
       wake_psi = ''CUBO'', n_samples = None, n_samples_phi = Some 7,
       n_samples_theta = Some 9, update_mode = ''alternate'', reparam_wphi = True\<rparr>", THEN conjunct1] by simp
  have 3: "train_samples
       \<lparr>n_epochs = 3, overall_loss = None, wake_theta = ''ELBO'',
       wake_psi = ''CUBO'', n_samples = Some 1, n_samples_phi = Some 7,
       n_samples_theta = None, update_mode = ''alternate'', reparam_wphi = True\<rparr> = Inl AssertionError"
    using train_samples_overwrite [where a = "\<lparr>n_epochs = 3, overall_loss = None, wake_theta = ''ELBO'',
       wake_psi = ''CUBO'', n_samples = Some 1, n_samples_phi = Some 7,
       n_samples_theta = None, update_mode = ''alternate'', reparam_wphi = True\<rparr>", THEN conjunct2, THEN conjunct1] by simp
  have 4: "train
       \<lparr>n_epochs = 3, overall_loss = None, wake_theta = ''ELBO'',
       wake_psi = ''CUBO'', n_samples = Some 1, n_samples_phi = Some 7,
       n_samples_theta = Some 9, update_mode = ''alternate'', reparam_wphi = True\<rparr>
       \<lparr>iterate = 0, training = True, labelled_fraction = 1 / 10,
        n_train_batches = 2, n_annot_batches = 1, events = []\<rparr> =
     train
       \<lparr>n_epochs = 3, overall_loss = None, wake_theta = ''ELBO'',
       wake_psi = ''CUBO'', n_samples = Some 1, n_samples_phi = None,
       n_samples_theta = None, update_mode = ''alternate'', reparam_wphi = True\<rparr>
       \<lparr>iterate = 0, training = True, labelled_fraction = 1 / 10,
        n_train_batches = 2, n_annot_batches = 1, events = []\<rparr>"
    using train_samples_overwrite [where a = "\<lparr>n_epochs = 3, overall_loss = None, wake_theta = ''ELBO'',
       wake_psi = ''CUBO'', n_samples = Some 1, n_samples_phi = None,
       n_samples_theta = None, update_mode = ''alternate'', reparam_wphi = True\<rparr>" and p = "Some 7" and q = "Some 9"
        and t = "\<lparr>iterate = 0, training = True, labelled_fraction = 1 / 10,
        n_train_batches = 2, n_annot_batches = 1, events = []\<rparr>", THEN conjunct2, THEN conjunct2]
    by simp
  from 1 2 3 4 show ?thesis by blast
qed

lemma forwards_append: "forwards (xs @ ys) = forwards xs @ forwards ys"
  by (induction xs rule: forwards.induct) simp_all

lemma loss_events:
  "MnistTrainer_loss t lt ns rp m = Inr t' \<Longrightarrow>
   forwards (events t') = forwards (events t) @ [(lt, ns, rp)]"
  by (auto simp: MnistTrainer_loss_def inference_def Let_def forwards_append
      split: if_splits)

lemma optim_step_forwards: "forwards (events (optim_step opt t)) = forwards (events t)"
  by (simp add: optim_step_def forwards_append)

lemma train_batch_forwards:
  assumes "overall_loss a = None" and "train_batch a nt np e t = Inr t'"
  shows "forwards (events t') =
        forwards (events t) @
          [(wake_theta a, nt, True),
           (fst (wake_phi_schedule (wake_psi a) (reparam_wphi a) (n_epochs a) e), np,
            snd (wake_phi_schedule (wake_psi a) (reparam_wphi a) (n_epochs a) e))]"
proof -
  from assms obtain t1 t3 where
    l1: "MnistTrainer_loss t (wake_theta a) nt True ''all'' = Inr t1" and
    l2: "MnistTrainer_loss (optim_step OptimGen t1)
           (fst (wake_phi_schedule (wake_psi a) (reparam_wphi a) (n_epochs a) e)) np
           (snd (wake_phi_schedule (wake_psi a) (reparam_wphi a) (n_epochs a) e)) ''all''
         = Inr t3" and
    r: "t' = (optim_step OptimVarWake t3)\<lparr>iterate := iterate (optim_step OptimVarWake t3) + 1\<rparr>"
    by (auto simp: train_batch_def Let_def dest!: bind_err_Inr)
  show ?thesis
    using loss_events[OF l1] loss_events[OF l2]
    by (simp add: r optim_step_forwards)
qed

lemma loss_batches:
  assumes "MnistTrainer_loss t lt ns rp m = Inr t'"
  shows "n_train_batches t' = n_train_batches t" and "n_annot_batches t' = n_annot_batches t"
  using assms
  by (auto simp: MnistTrainer_loss_def inference_def Let_def split: if_splits)

lemma train_batch_batches:
  assumes "train_batch a nt np e t = Inr t'"
  shows "batches_per_epoch t' = batches_per_epoch t"
proof (cases "overall_loss a")
  case (Some ol)
  with assms obtain t1 where
    l1: "MnistTrainer_loss t ol (n_samples a) True (update_mode a) = Inr t1" and
    r: "t' = (optim_step Optim t1)\<lparr>iterate := iterate (optim_step Optim t1) + 1\<rparr>"
    by (auto simp: train_batch_def Let_def dest!: bind_err_Inr)
  from loss_batches[OF l1] show ?thesis
    by (simp add: r optim_step_def batches_per_epoch_def)
next
  case None
  with assms obtain t1 t3 where
    l1: "MnistTrainer_loss t (wake_theta a) nt True ''all'' = Inr t1" and
    l2: "MnistTrainer_loss (optim_step OptimGen t1)
           (fst (wake_phi_schedule (wake_psi a) (reparam_wphi a) (n_epochs a) e)) np
           (snd (wake_phi_schedule (wake_psi a) (reparam_wphi a) (n_epochs a) e)) ''all''
         = Inr t3" and
    r: "t' = (optim_step OptimVarWake t3)\<lparr>iterate := iterate (optim_step OptimVarWake t3) + 1\<rparr>"
    by (auto simp: train_batch_def Let_def dest!: bind_err_Inr)
  from loss_batches[OF l1] loss_batches[OF l2] show ?thesis
    by (simp add: r optim_step_def batches_per_epoch_def)
qed

lemma run_batches_forwards:
  assumes "run_batches k (train_batch a nt np e) t = Inr t'" and "overall_loss a = None"
  shows "forwards (events t') =
           forwards (events t) @
             concat (replicate k
               [(wake_theta a, nt, True),
                (fst (wake_phi_schedule (wake_psi a) (reparam_wphi a) (n_epochs a) e), np,
                 snd (wake_phi_schedule (wake_psi a) (reparam_wphi a) (n_epochs a) e))]) \<and>
         batches_per_epoch t' = batches_per_epoch t"
  using assms(1)
proof (induction k arbitrary: t)
  case 0
  then show ?case by simp
next
  case (Suc k)
  from Suc.prems obtain t1 where
    b: "train_batch a nt np e t = Inr t1" and
    rest: "run_batches k (train_batch a nt np e) t1 = Inr t'"
    by (auto dest!: bind_err_Inr)
  from Suc.IH[OF rest] train_batch_forwards[OF assms(2) b] train_batch_batches[OF b]
  show ?case by simp
qed

lemma run_epochs_forwards:
  assumes "run_epochs es (train_batch a nt np) t = Inr t'" and "overall_loss a = None"
  shows "forwards (events t') =
           forwards (events t) @
             concat (map (\<lambda>ep. concat (replicate (batches_per_epoch t)
               [(wake_theta a, nt, True),
                (fst (wake_phi_schedule (wake_psi a) (reparam_wphi a) (n_epochs a) ep), np,
                 snd (wake_phi_schedule (wake_psi a) (reparam_wphi a) (n_epochs a) ep))])) es) \<and>
         batches_per_epoch t' = batches_per_epoch t"
  using assms(1)
proof (induction es arbitrary: t)
  case Nil
  then show ?case by simp
next
  case (Cons e es)
  from Cons.prems obtain t1 where
    b: "run_batches (batches_per_epoch t) (train_batch a nt np e) t = Inr t1" and
    rest: "run_epochs es (train_batch a nt np) t1 = Inr t'"
    by (auto dest!: bind_err_Inr)
  from Cons.IH[OF rest] run_batches_forwards[OF b assms(2)]
  show ?case by simp
qed

text \<open>
  C8.  With a combined \<open>wake_psi\<close> schedule the wake-phi objective switches exactly
  at epoch \<open>floor(n_epochs / 3)\<close>: for every epoch \<open>e\<close> of the loop
  (\<open>0 \<le> e < n\<close>), "REVKL+CUBO" uses REVKL without reparametrisation while
  \<open>e \<le> n div 3\<close> and CUBO with reparametrisation afterwards; "ELBO+CUBO" uses ELBO
  then CUBO, always reparametrised; "ELBO+REVKL" uses ELBO reparametrised then REVKL
  without; any other value is used unchanged together with \<open>reparam_wphi\<close>.  And a
  multi-objective run of \<open>train\<close> that returns makes, epoch after epoch from 0 to
  \<open>n_epochs - 1\<close> and for every batch of the epoch, first the wake-theta pass and then
  the wake-phi pass with exactly the objective and flag of that epoch.
  (\<open>int(n_epochs / 3)\<close> is taken as exact truncating division.)
\<close>

theorem train_wake_phi_schedule:
  "(0 \<le> e \<and> e < n \<longrightarrow>
     wake_phi_schedule ''REVKL+CUBO'' r n e =
       (if e \<le> n div 3 then (''REVKL'', False) else (''CUBO'', True)) \<and>
     wake_phi_schedule ''ELBO+CUBO'' r n e =
       (if e \<le> n div 3 then (''ELBO'', True) else (''CUBO'', True)) \<and>
     wake_phi_schedule ''ELBO+REVKL'' r n e =
       (if e \<le> n div 3 then (''ELBO'', True) else (''REVKL'', False)) \<and>
     (wp \<notin> {''REVKL+CUBO'', ''ELBO+CUBO'', ''ELBO+REVKL''} \<longrightarrow>
        wake_phi_schedule wp r n e = (wp, r))) \<and>
   (train a t = Inr t' \<and> overall_loss a = None \<and> train_samples a = Inr (nt, np) \<longrightarrow>
      forwards (events t') =
        forwards (events t) @
          concat (map (\<lambda>ep. concat (replicate (batches_per_epoch t)
            [(wake_theta a, nt, True),
             (fst (wake_phi_schedule (wake_psi a) (reparam_wphi a) (n_epochs a) ep), np,
              snd (wake_phi_schedule (wake_psi a) (reparam_wphi a) (n_epochs a) ep))]))
            [0 .. n_epochs a - 1]))"
proof -
  have 1: "0 \<le> e \<and> e < n \<longrightarrow>
     wake_phi_schedule ''REVKL+CUBO'' r n e =
       (if e \<le> n div 3 then (''REVKL'', False) else (''CUBO'', True)) \<and>
     wake_phi_schedule ''ELBO+CUBO'' r n e =
       (if e \<le> n div 3 then (''ELBO'', True) else (''CUBO'', True)) \<and>
     wake_phi_schedule ''ELBO+REVKL'' r n e =
       (if e \<le> n div 3 then (''ELBO'', True) else (''REVKL'', False)) \<and>
     (wp \<notin> {''REVKL+CUBO'', ''ELBO+CUBO'', ''ELBO+REVKL''} \<longrightarrow>
        wake_phi_schedule wp r n e = (wp, r))"
    by (simp add: wake_phi_schedule_def int_third_def)
  have 2: "train a t = Inr t' \<and> overall_loss a = None \<and> train_samples a = Inr (nt, np) \<longrightarrow>
      forwards (events t') =
        forwards (events t) @
          concat (map (\<lambda>ep. concat (replicate (batches_per_epoch t)
            [(wake_theta a, nt, True),
             (fst (wake_phi_schedule (wake_psi a) (reparam_wphi a) (n_epochs a) ep), np,
              snd (wake_phi_schedule (wake_psi a) (reparam_wphi a) (n_epochs a) ep))]))
            [0 .. n_epochs a - 1])"
  proof (intro impI)
    assume h: "train a t = Inr t' \<and> overall_loss a = None \<and> train_samples a = Inr (nt, np)"
    then have tr: "train a t = Inr t'" and ol: "overall_loss a = None"
      and ts: "train_samples a = Inr (nt, np)"
      by (rule conjunct1, rule conjunct1[OF conjunct2], rule conjunct2[OF conjunct2])
    from tr have "run_epochs [0 .. n_epochs a - 1] (train_batch a nt np) t = Inr t'"
      by (simp add: train_def ts bind_err_def)
    from run_epochs_forwards[OF this ol]
    show "forwards (events t') =
        forwards (events t) @
          concat (map (\<lambda>ep. concat (replicate (batches_per_epoch t)
            [(wake_theta a, nt, True),
             (fst (wake_phi_schedule (wake_psi a) (reparam_wphi a) (n_epochs a) ep), np,
              snd (wake_phi_schedule (wake_psi a) (reparam_wphi a) (n_epochs a) ep))]))
            [0 .. n_epochs a - 1])"
      by (rule conjunct1)
  qed
  from 1 2 show ?thesis by (rule conjI)
qed

theorem train_wake_phi_schedule_witness:
  "train \<lparr>n_epochs = 3, overall_loss = None, wake_theta = ''ELBO'',
       wake_psi = ''REVKL+CUBO'', n_samples = Some 1, n_samples_phi = None,
       n_samples_theta = None, update_mode = ''all'', reparam_wphi = True\<rparr>
     \<lparr>iterate = 1, training = True, labelled_fraction = 1 / 10, n_train_batches = 1,
      n_annot_batches = 1, events = []\<rparr>
   = Inr \<lparr>iterate = 4, training = True, labelled_fraction = 1 / 10,
          n_train_batches = 1, n_annot_batches = 1,
          events = [Forward ''ELBO'' (Some 1) True, Step OptimGen True,
                    Forward ''REVKL'' (Some 1) False, Step OptimVarWake True,
                    Forward ''ELBO'' (Some 1) True, Step OptimGen True,
                    Forward ''REVKL'' (Some 1) False, Step OptimVarWake True,
                    Forward ''ELBO'' (Some 1) True, Step OptimGen True,
                    Forward ''CUBO'' (Some 1) True, Step OptimVarWake True]\<rparr> \<and>
   forwards [Forward ''ELBO'' (Some 1) True, Step OptimGen True,
             Forward ''REVKL'' (Some 1) False, Step OptimVarWake True,
             Forward ''ELBO'' (Some 1) True, Step OptimGen True,
             Forward ''REVKL'' (Some 1) False, Step OptimVarWake True,
             Forward ''ELBO'' (Some 1) True, Step OptimGen True,
             Forward ''CUBO'' (Some 1) True, Step OptimVarWake True] =
     [(''ELBO'', Some 1, True), (''REVKL'', Some 1, False),
      (''ELBO'', Some 1, True), (''REVKL'', Some 1, False),
      (''ELBO'', Some 1, True), (''CUBO'', Some 1, True)] \<and>
   wake_phi_schedule ''REVKL+CUBO'' True 3 1 = (''REVKL'', False) \<and>
   wake_phi_schedule ''REVKL+CUBO'' True 3 2 = (''CUBO'', True)"
proof -
  have up: "[0 .. (2::int)] = [0, 1, 2]"
    by (simp add: upto.simps)
  have run: "train \<lparr>n_epochs = 3, overall_loss = None, wake_theta = ''ELBO'',
       wake_psi = ''REVKL+CUBO'', n_samples = Some 1, n_samples_phi = None,
       n_samples_theta = None, update_mode = ''all'', reparam_wphi = True\<rparr>
     \<lparr>iterate = 1, training = True, labelled_fraction = 1 / 10, n_train_batches = 1,
      n_annot_batches = 1, events = []\<rparr>
   = Inr \<lparr>iterate = 4, training = True, labelled_fraction = 1 / 10,
          n_train_batches = 1, n_annot_batches = 1,
          events = [Forward ''ELBO'' (Some 1) True, Step OptimGen True,
                    Forward ''REVKL'' (Some 1) False, Step OptimVarWake True,
                    Forward ''ELBO'' (Some 1) True, Step OptimGen True,
                    Forward ''REVKL'' (Some 1) False, Step OptimVarWake True,
                    Forward ''ELBO'' (Some 1) True, Step OptimGen True,
                    Forward ''CUBO'' (Some 1) True, Step OptimVarWake True]\<rparr>"
    by (simp add: train_def train_samples_def bind_err_def up batches_per_epoch_def
        train_batch_def MnistTrainer_loss_def inference_def optim_step_def
        wake_phi_schedule_def int_third_def)
  have ts: "train_samples \<lparr>n_epochs = 3, overall_loss = None, wake_theta = ''ELBO'',
       wake_psi = ''REVKL+CUBO'', n_samples = Some 1, n_samples_phi = None,
       n_samples_theta = None, update_mode = ''all'', reparam_wphi = True\<rparr>
     = Inr (Some 1, Some 1)"
    by (simp add: train_samples_def)
  have f: "forwards [Forward ''ELBO'' (Some 1) True, Step OptimGen True,
             Forward ''REVKL'' (Some 1) False, Step OptimVarWake True,
             Forward ''ELBO'' (Some 1) True, Step OptimGen True,
             Forward ''REVKL'' (Some 1) False, Step OptimVarWake True,
             Forward ''ELBO'' (Some 1) True, Step OptimGen True,
             Forward ''CUBO'' (Some 1) True, Step OptimVarWake True] =
     [(''ELBO'', Some 1, True), (''REVKL'', Some 1, False),
      (''ELBO'', Some 1, True), (''REVKL'', Some 1, False),
      (''ELBO'', Some 1, True), (''CUBO'', Some 1, True)]"
    using train_wake_phi_schedule [THEN conjunct2, rule_format, OF conjI [OF run conjI [OF _ ts]]]
      train_wake_phi_schedule [where e = 1 and n = 3 and r = True, THEN conjunct1]
      train_wake_phi_schedule [where e = 2 and n = 3 and r = True, THEN conjunct1]
    by (simp add: up batches_per_epoch_def)
  have s: "wake_phi_schedule ''REVKL+CUBO'' True 3 1 = (''REVKL'', False) \<and>
      wake_phi_schedule ''REVKL+CUBO'' True 3 2 = (''CUBO'', True)"
    using train_wake_phi_schedule [where e = 1 and n = 3 and r = True, THEN conjunct1]
      train_wake_phi_schedule [where e = 2 and n = 3 and r = True, THEN conjunct1]
    by simp
  from run f s show ?thesis by blast
qed

text \<open>
  C9, as stated, fails: on a freshly constructed trainer (iteration count 0, model
  in training mode) the first call of \<open>loss\<close> runs \<open>inference\<close>, which puts the model
  in evaluation mode, and the optimizer step that follows is taken in that mode.
\<close>

theorem train_step_in_eval_mode_counterexample:
  "train \<lparr>n_epochs = 1, overall_loss = Some ''ELBO'', wake_theta = ''ELBO'',
       wake_psi = ''ELBO'', n_samples = Some 1, n_samples_phi = None,
       n_samples_theta = None, update_mode = ''all'', reparam_wphi = True\<rparr>
     \<lparr>iterate = 0, training = True, labelled_fraction = 1 / 10, n_train_batches = 1,
      n_annot_batches = 1, events = []\<rparr>
   = Inr \<lparr>iterate = 1, training = False, labelled_fraction = 1 / 10,
          n_train_batches = 1, n_annot_batches = 1,
          events = [Forward ''ELBO'' (Some 1) True, Step Optim False]\<rparr>"
  by (simp add: train_def train_samples_def bind_err_def upto.simps batches_per_epoch_def
      train_batch_def MnistTrainer_loss_def inference_def optim_step_def)

lemma loss_leaves_eval:
  assumes "MnistTrainer_loss t lt ns rp m = Inr t'"
    and "iterate t mod 100 = 0 \<or> \<not> training t"
  shows "\<not> training t'" and "iterate t' = iterate t"
    and "step_modes (events t') = step_modes (events t)"
  using assms
  by (auto simp: MnistTrainer_loss_def inference_def Let_def step_modes_append
      split: if_splits)

lemma optim_step_log:
  "training (optim_step opt t) = training t"
  "iterate (optim_step opt t) = iterate t"
  "step_modes (events (optim_step opt t)) = step_modes (events t) @ [training t]"
  by (simp_all add: optim_step_def step_modes_append)

lemma train_batch_eval:
  assumes "train_batch a nt np e t = Inr t'"
    and "iterate t mod 100 = 0 \<or> \<not> training t"
  shows "\<not> training t' \<and>
         set (step_modes (events t')) \<subseteq> set (step_modes (events t)) \<union> {False}"
proof (cases "overall_loss a")
  case (Some ol)
  with assms(1) obtain t1 where
    l1: "MnistTrainer_loss t ol (n_samples a) True (update_mode a) = Inr t1" and
    r: "t' = (optim_step Optim t1)\<lparr>iterate := iterate (optim_step Optim t1) + 1\<rparr>"
    by (auto simp: train_batch_def Let_def dest!: bind_err_Inr)
  from loss_leaves_eval[OF l1 assms(2)] show ?thesis
    by (simp add: r optim_step_log)
next
  case None
  with assms(1) obtain t1 t3 where
    l1: "MnistTrainer_loss t (wake_theta a) nt True ''all'' = Inr t1" and
    l2: "MnistTrainer_loss (optim_step OptimGen t1)
           (fst (wake_phi_schedule (wake_psi a) (reparam_wphi a) (n_epochs a) e)) np
           (snd (wake_phi_schedule (wake_psi a) (reparam_wphi a) (n_epochs a) e)) ''all''
         = Inr t3" and
    r: "t' = (optim_step OptimVarWake t3)\<lparr>iterate := iterate (optim_step OptimVarWake t3) + 1\<rparr>"
    by (auto simp: train_batch_def Let_def dest!: bind_err_Inr)
  note a1 = loss_leaves_eval[OF l1 assms(2)]
  have "\<not> training (optim_step OptimGen t1)"
    using a1 by (simp add: optim_step_log)
  then have a2: "iterate (optim_step OptimGen t1) mod 100 = 0 \<or>
      \<not> training (optim_step OptimGen t1)"
    by simp
  note a3 = loss_leaves_eval[OF l2 a2]
  show ?thesis using a1 a3
    by (simp add: r optim_step_log)
qed

lemma run_batches_eval:
  assumes "run_batches k (train_batch a nt np e) t = Inr t'"
    and "iterate t mod 100 = 0 \<or> \<not> training t"
  shows "(t' = t \<or> \<not> training t') \<and>
         set (step_modes (events t')) \<subseteq> set (step_modes (events t)) \<union> {False}"
  using assms
proof (induction k arbitrary: t)
  case 0
  then show ?case by auto
next
  case (Suc k)
  from Suc.prems(1) obtain t1 where
    b: "train_batch a nt np e t = Inr t1" and
    rest: "run_batches k (train_batch a nt np e) t1 = Inr t'"
    by (auto dest!: bind_err_Inr)
  from train_batch_eval[OF b Suc.prems(2)] have
    e1: "\<not> training t1" and
    s1: "set (step_modes (events t1)) \<subseteq> set (step_modes (events t)) \<union> {False}"
    by simp_all
  from Suc.IH[OF rest] e1 have
    "(t' = t1 \<or> \<not> training t')" and
    "set (step_modes (events t')) \<subseteq> set (step_modes (events t1)) \<union> {False}"
    by simp_all
  with e1 s1 show ?case by auto
qed

lemma run_epochs_eval:
  assumes "run_epochs es (train_batch a nt np) t = Inr t'"
    and "iterate t mod 100 = 0 \<or> \<not> training t"
  shows "(t' = t \<or> \<not> training t') \<and>
         set (step_modes (events t')) \<subseteq> set (step_modes (events t)) \<union> {False}"
  using assms
proof (induction es arbitrary: t)
  case Nil
  then show ?case by auto
next
  case (Cons e es)
  from Cons.prems(1) obtain t1 where
    b: "run_batches (batches_per_epoch t) (train_batch a nt np e) t = Inr t1" and
    rest: "run_epochs es (train_batch a nt np) t1 = Inr t'"
    by (auto dest!: bind_err_Inr)
  from run_batches_eval[OF b Cons.prems(2)] have
    e1: "t1 = t \<or> \<not> training t1" and
    s1: "set (step_modes (events t1)) \<subseteq> set (step_modes (events t)) \<union> {False}"
    by simp_all
  from e1 Cons.prems(2) have "iterate t1 mod 100 = 0 \<or> \<not> training t1"
    by auto
  from Cons.IH[OF rest this] have
    "(t' = t1 \<or> \<not> training t')" and
    "set (step_modes (events t')) \<subseteq> set (step_modes (events t1)) \<union> {False}"
    by simp_all
  with e1 s1 show ?case by auto
qed

text \<open>
  C9, amended.  \<open>train\<close> never restores training mode.  If a run of \<open>train\<close> starts
  with an iteration count divisible by 100 (as on a fresh trainer) or with the model
  already in evaluation mode, then every optimizer step of the run is taken with the
  model in evaluation mode, and unless the run processed no batch at all the model is
  still in evaluation mode when \<open>train\<close> returns.
\<close>

theorem train_steps_in_eval_mode:
  assumes "train a t = Inr t'"
    and "iterate t mod 100 = 0 \<or> \<not> training t"
  shows "(t' = t \<or> \<not> training t') \<and>
         set (step_modes (events t')) \<subseteq> set (step_modes (events t)) \<union> {False}"
proof -
  from assms(1) obtain nt np where
    "run_epochs [0 .. n_epochs a - 1] (train_batch a nt np) t = Inr t'"
    by (auto simp: train_def dest!: bind_err_Inr)
  from run_epochs_eval[OF this assms(2)] show ?thesis .
qed

theorem train_steps_in_eval_mode_witness:
  "train \<lparr>n_epochs = 1, overall_loss = None, wake_theta = ''ELBO'',
       wake_psi = ''REVKL+CUBO'', n_samples = Some 1, n_samples_phi = None,
       n_samples_theta = None, update_mode = ''all'', reparam_wphi = True\<rparr>
     \<lparr>iterate = 0, training = True, labelled_fraction = 1 / 10, n_train_batches = 1,
      n_annot_batches = 1, events = []\<rparr>
   = Inr \<lparr>iterate = 1, training = False, labelled_fraction = 1 / 10,
          n_train_batches = 1, n_annot_batches = 1,
          events = [Forward ''ELBO'' (Some 1) True, Step OptimGen False,
                    Forward ''REVKL'' (Some 1) False, Step OptimVarWake False]\<rparr> \<and>
   set (step_modes [Forward ''ELBO'' (Some 1) True, Step OptimGen False,
                    Forward ''REVKL'' (Some 1) False, Step OptimVarWake False])
     \<subseteq> set (step_modes []) \<union> {False}"
proof -
  have run: "train \<lparr>n_epochs = 1, overall_loss = None, wake_theta = ''ELBO'',
       wake_psi = ''REVKL+CUBO'', n_samples = Some 1, n_samples_phi = None,
       n_samples_theta = None, update_mode = ''all'', reparam_wphi = True\<rparr>
     \<lparr>iterate = 0, training = True, labelled_fraction = 1 / 10, n_train_batches = 1,
      n_annot_batches = 1, events = []\<rparr>
   = Inr \<lparr>iterate = 1, training = False, labelled_fraction = 1 / 10,
          n_train_batches = 1, n_annot_batches = 1,
          events = [Forward ''ELBO'' (Some 1) True, Step OptimGen False,
                    Forward ''REVKL'' (Some 1) False, Step OptimVarWake False]\<rparr>"
    by (simp add: train_def train_samples_def bind_err_def upto.simps batches_per_epoch_def
        train_batch_def MnistTrainer_loss_def inference_def optim_step_def
        wake_phi_schedule_def int_third_def)
  show ?thesis
    using train_steps_in_eval_mode [OF run] run by simp
qed

section \<open>Properties of the constructors\<close>

lemma np_unique_set: "set (np_unique lg) = set lg"
  by (simp add: np_unique_def)

lemma np_arange_set: "set (np_arange n) = {0 ..< int n}"
proof (rule set_eqI)
  fix x :: int
  show "x \<in> set (np_arange n) \<longleftrightarrow> x \<in> {0 ..< int n}"
  proof
    assume "x \<in> set (np_arange n)"
    then show "x \<in> {0 ..< int n}" by (auto simp: np_arange_def)
  next
    assume "x \<in> {0 ..< int n}"
    then have "nat x < n" and "x = int (nat x)" by auto
    then have "x \<in> int ` {0 ..< n}" by (metis atLeastLessThan_iff imageI le0)
    then show "x \<in> set (np_arange n)" by (simp add: np_arange_def)
  qed
qed

lemma np_arange_sorted: "sorted (np_arange n)" "distinct (np_arange n)"
  by (auto simp: np_arange_def sorted_map distinct_map inj_on_def
      intro!: strict_sorted_imp_sorted)

lemma np_unique_arange_iff:
  "np_unique lg = np_arange (length (np_unique lg)) \<longleftrightarrow>
   set lg = {0 ..< int (card (set lg))}"
proof -
  have len: "length (np_unique lg) = card (set lg)"
    by (simp add: np_unique_def length_remdups_card_conv)
  have sd: "sorted (np_unique lg)" "distinct (np_unique lg)"
    by (simp_all add: np_unique_def)
  show ?thesis
  proof
    assume "np_unique lg = np_arange (length (np_unique lg))"
    then have "np_unique lg = np_arange (card (set lg))" unfolding len .
    then have "set (np_unique lg) = set (np_arange (card (set lg)))" by (rule arg_cong)
    then show "set lg = {0 ..< int (card (set lg))}"
      unfolding np_unique_set np_arange_set .
  next
    assume "set lg = {0 ..< int (card (set lg))}"
    then have "set (np_unique lg) = set (np_arange (card (set lg)))"
      unfolding np_unique_set np_arange_set .
    then have "np_unique lg = np_arange (card (set lg))"
      by (intro sorted_distinct_set_unique sd np_arange_sorted)
    then show "np_unique lg = np_arange (length (np_unique lg))" unfolding len .
  qed
qed

lemma init_no_groups:
  assumes "num_classes_arg a \<noteq> []" "y_prior_arg a \<noteq> None \<or> 0 < last (num_classes_arg a)"
    "use_labels_groups_arg a" "labels_groups_arg a = None"
  shows "SCHANVAE_init a = Inl ValueError"
  using assms by (auto simp: SCHANVAE_init_def Let_def)

lemma init_bad_groups:
  assumes "num_classes_arg a \<noteq> []" "y_prior_arg a \<noteq> None \<or> 0 < last (num_classes_arg a)"
    "use_labels_groups_arg a" "labels_groups_arg a = Some lg"
    "set lg \<noteq> {0 ..< int (card (set lg))}"
  shows "SCHANVAE_init a = Inl ValueError"
proof -
  from assms(5) have "np_unique lg \<noteq> np_arange (length (np_unique lg))"
    by (simp add: np_unique_arange_iff)
  with assms(1-4) show ?thesis
    by (auto simp: SCHANVAE_init_def Let_def)
qed

text \<open>
  C5.  Invalid configuration raises at construction.  The constructor of \<open>SCHANVAE\<close>
  fails when label groups are requested and \<open>labels_groups\<close> is None, and when the set
  of group identifiers is not exactly \<open>{0, ..., n_groups - 1}\<close> with \<open>n_groups\<close> the
  number of distinct identifiers; the exception is the ValueError of the group checks
  whenever the statements before them have completed (the class list is not empty and
  the default prior could be built).
  \<open>BaseMuDataWrapper.__init__\<close>, and with it the constructor of every class made by
  \<open>MuDataWrapper\<close>, raises ValueError when a modality is required and none is given;
  \<open>MuDataWrapper\<close> raises ValueError when handed an instance instead of a class.
\<close>

theorem construction_raises:
  "(use_labels_groups_arg a \<and>
    (labels_groups_arg a = None \<or>
     (\<exists>lg. labels_groups_arg a = Some lg \<and> set lg \<noteq> {0 ..< int (card (set lg))})) \<longrightarrow>
      (\<exists>e. SCHANVAE_init a = Inl e) \<and>
      (num_classes_arg a \<noteq> [] \<and>
       (y_prior_arg a \<noteq> None \<or> 0 < last (num_classes_arg a)) \<longrightarrow>
         SCHANVAE_init a = Inl ValueError)) \<and>
   (mod_required \<and> mk = None \<longrightarrow> BaseMuDataWrapper_init mk mod_required = Inl ValueError) \<and>
   (mod_required \<and> mk = None \<longrightarrow> mudata_field_init c mk mod_required = Inl ValueError) \<and>
   MuDataWrapper (InstanceObject cn) pf = Inl ValueError"
proof -
  have 1: "mod_required \<and> mk = None \<longrightarrow> BaseMuDataWrapper_init mk mod_required = Inl ValueError"
    by (simp add: BaseMuDataWrapper_init_def)
  have 2: "mod_required \<and> mk = None \<longrightarrow> mudata_field_init c mk mod_required = Inl ValueError"
    by (simp add: BaseMuDataWrapper_init_def mudata_field_init_def bind_err_def)
  have 3: "MuDataWrapper (InstanceObject cn) pf = Inl ValueError"
    by (simp add: MuDataWrapper_def)
  have 4: "use_labels_groups_arg a \<and>
    (labels_groups_arg a = None \<or>
     (\<exists>lg. labels_groups_arg a = Some lg \<and> set lg \<noteq> {0 ..< int (card (set lg))})) \<longrightarrow>
      (\<exists>e. SCHANVAE_init a = Inl e) \<and>
      (num_classes_arg a \<noteq> [] \<and>
       (y_prior_arg a \<noteq> None \<or> 0 < last (num_classes_arg a)) \<longrightarrow>
         SCHANVAE_init a = Inl ValueError)"
  proof (intro impI)
    assume h: "use_labels_groups_arg a \<and>
      (labels_groups_arg a = None \<or>
       (\<exists>lg. labels_groups_arg a = Some lg \<and> set lg \<noteq> {0 ..< int (card (set lg))}))"
    then have ug: "use_labels_groups_arg a" by (rule conjunct1)
    have v: "SCHANVAE_init a = Inl ValueError"
      if nc: "num_classes_arg a \<noteq> []"
        and yp: "y_prior_arg a \<noteq> None \<or> 0 < last (num_classes_arg a)"
    proof -
      from h have d: "labels_groups_arg a = None \<or>
          (\<exists>lg. labels_groups_arg a = Some lg \<and> set lg \<noteq> {0 ..< int (card (set lg))})"
        by (rule conjunct2)
      show ?thesis
      proof (rule disjE[OF d])
        assume "labels_groups_arg a = None"
        then show ?thesis by (rule init_no_groups[OF nc yp ug])
      next
        assume "\<exists>lg. labels_groups_arg a = Some lg \<and> set lg \<noteq> {0 ..< int (card (set lg))}"
        then obtain lg where l1: "labels_groups_arg a = Some lg"
          and l2: "set lg \<noteq> {0 ..< int (card (set lg))}"
          by (elim exE conjE)
        show ?thesis by (rule init_bad_groups[OF nc yp ug l1 l2])
      qed
    qed
    have e: "\<exists>e. SCHANVAE_init a = Inl e"
    proof (cases "num_classes_arg a \<noteq> [] \<and>
        (y_prior_arg a \<noteq> None \<or> 0 < last (num_classes_arg a))")
      case True
      then show ?thesis using v by blast
    next
      case False
      then show ?thesis by (auto simp: SCHANVAE_init_def Let_def)
    qed
    from e v show "(\<exists>e. SCHANVAE_init a = Inl e) \<and>
      (num_classes_arg a \<noteq> [] \<and>
       (y_prior_arg a \<noteq> None \<or> 0 < last (num_classes_arg a)) \<longrightarrow>
         SCHANVAE_init a = Inl ValueError)"
      by blast
  qed
  show ?thesis
    by (rule conjI[OF 4 conjI[OF 1 conjI[OF 2 3]]])
qed

theorem construction_raises_witness:
  "SCHANVAE_init \<lparr>num_classes_arg = [2, 3], y_prior_arg = None, labels_groups_arg = None,
       use_labels_groups_arg = True, n_version_arg = 0\<rparr> = Inl ValueError \<and>
   SCHANVAE_init \<lparr>num_classes_arg = [2, 3], y_prior_arg = None,
       labels_groups_arg = Some [0, 2, 2], use_labels_groups_arg = True,
       n_version_arg = 0\<rparr> = Inl ValueError \<and>
   BaseMuDataWrapper_init None True = Inl ValueError \<and>
   MuDataWrapper (InstanceObject ''LayerField'') False = Inl ValueError"
proof -
  have "(2::int) \<in> set [0, 2, 2]" by simp
  moreover have "card (set [0, 2, 2 :: int]) = 2" by simp
  then have "(2::int) \<notin> {0 ..< int (card (set [0, 2, 2 :: int]))}" by simp
  ultimately have ne: "set [0, 2, 2 :: int] \<noteq> {0 ..< int (card (set [0, 2, 2 :: int]))}"
    by metis
  have a: "SCHANVAE_init \<lparr>num_classes_arg = [2, 3], y_prior_arg = None,
       labels_groups_arg = None, use_labels_groups_arg = True, n_version_arg = 0\<rparr>
     = Inl ValueError"
    using construction_raises [where a = "\<lparr>num_classes_arg = [2, 3], y_prior_arg = None,
       labels_groups_arg = None, use_labels_groups_arg = True, n_version_arg = 0\<rparr>",
       THEN conjunct1]
    by simp
  have b: "SCHANVAE_init \<lparr>num_classes_arg = [2, 3], y_prior_arg = None,
       labels_groups_arg = Some [0, 2, 2], use_labels_groups_arg = True,
       n_version_arg = 0\<rparr> = Inl ValueError"
    using construction_raises [where a = "\<lparr>num_classes_arg = [2, 3], y_prior_arg = None,
       labels_groups_arg = Some [0, 2, 2], use_labels_groups_arg = True,
       n_version_arg = 0\<rparr>", THEN conjunct1] ne
    by auto
  have c: "BaseMuDataWrapper_init None True = Inl ValueError \<and>
       MuDataWrapper (InstanceObject ''LayerField'') False = Inl ValueError"
    using construction_raises [where mod_required = True and mk = None
        and cn = "''LayerField''" and pf = False, THEN conjunct2]
    by simp
  from a b c show ?thesis by simp
qed

lemma init_groups:
  assumes "SCHANVAE_init a = Inr m" "use_labels_groups_arg a"
  shows "\<exists>lg. labels_groups_arg a = Some lg \<and> set lg = {0 ..< int (n_groups m)} \<and>
          n_groups m = card (set lg) \<and>
          groups_index m = map (\<lambda>i. map (\<lambda>l. l = int i) lg) [0..<n_groups m] \<and>
          n_labels m = last (num_classes_arg a)"
proof -
  from assms obtain lg where lg: "labels_groups_arg a = Some lg"
    by (cases "labels_groups_arg a") (auto simp: SCHANVAE_init_def Let_def split: if_splits)
  from assms lg have u: "np_unique lg = np_arange (length (np_unique lg))"
    by (auto simp: SCHANVAE_init_def Let_def split: if_splits)
  have len: "length (np_unique lg) = card (set lg)"
    by (simp add: np_unique_def length_remdups_card_conv)
  from assms lg u have m: "n_groups m = length (np_unique lg)"
      "groups_index m = map (\<lambda>i. map (\<lambda>l. l = int i) lg) [0..<length (np_unique lg)]"
      "n_labels m = last (num_classes_arg a)"
    by (auto simp: SCHANVAE_init_def Let_def split: if_splits)
  from u have "set lg = {0 ..< int (card (set lg))}"
    by (simp add: np_unique_arange_iff)
  with lg m len show ?thesis by simp
qed

lemma mask_count_one:
  assumes gi: "gi = map (\<lambda>i. map (\<lambda>l. l = int i) lg) [0..<ng]"
    and s: "set lg = {0 ..< int ng}" and j: "j < length lg"
  shows "length (filter (\<lambda>gm. in_mask gm j) gi) = 1"
proof -
  have "lg ! j \<in> set lg" using j by simp
  then have r: "0 \<le> lg ! j" "lg ! j < int ng" using s by auto
  have "filter (\<lambda>gm. in_mask gm j) gi =
        map (\<lambda>i. map (\<lambda>l. l = int i) lg) (filter (\<lambda>i. lg ! j = int i) [0..<ng])"
    using j by (simp add: gi filter_map o_def in_mask_def)
  moreover have "length (filter (\<lambda>i. lg ! j = int i) [0..<ng]) =
        card ({i. lg ! j = int i} \<inter> set [0..<ng])"
    by (rule distinct_length_filter) simp
  moreover have "{i. lg ! j = int i} \<inter> set [0..<ng] = {nat (lg ! j)}"
    using r by auto
  ultimately show ?thesis by simp
qed

lemma mask_nonempty:
  assumes s: "set lg = {0 ..< int ng}" and i: "i < ng"
  shows "\<exists>j. in_mask (map (\<lambda>l. l = int i) lg) j"
proof -
  have "int i \<in> set lg" using s i by simp
  then obtain j where "j < length lg" "lg ! j = int i"
    by (auto simp: in_set_conv_nth)
  then show ?thesis by (auto simp: in_mask_def)
qed

text \<open>
  C7, as stated, fails: the constructor does not compare the length of
  \<open>labels_groups\<close> with the number of labels.  With two labels and
  \<open>labels_groups = [0]\<close> construction succeeds with the single mask \<open>[True]\<close>, and
  label index 1 is in no mask.
\<close>

theorem groups_index_partition_counterexample:
  "SCHANVAE_init \<lparr>num_classes_arg = [2], y_prior_arg = None, labels_groups_arg = Some [0],
       use_labels_groups_arg = True, n_version_arg = 0\<rparr> =
     Inr \<lparr>n_version = 0, num_classes = [2], n_labels = 2, y_prior = [[1 / 2, 1 / 2]],
          use_labels_groups = True, labels_groups = Some [0], n_groups = 1,
          groups_index = [[True]]\<rparr> \<and>
   mask_count \<lparr>n_version = 0, num_classes = [2], n_labels = 2, y_prior = [[1 / 2, 1 / 2]],
          use_labels_groups = True, labels_groups = Some [0], n_groups = 1,
          groups_index = [[True]]\<rparr> 1 = 0"
  by (simp add: SCHANVAE_init_def np_unique_def np_arange_def mask_count_def in_mask_def
      numeral_2_eq_2)

text \<open>
  C7, amended.  When label groups are used and \<open>labels_groups\<close> has one entry per
  label, a successfully constructed model holds one mask per group
  \<open>0, ..., n_groups - 1\<close>, every label index lies in the mask of exactly one group,
  and every group's mask selects at least one label.
\<close>

theorem groups_index_partition:
  assumes "SCHANVAE_init a = Inr m" and "use_labels_groups_arg a"
    and "labels_groups_arg a = Some lg" and "length lg = last (num_classes_arg a)"
  shows "length (groups_index m) = n_groups m \<and>
         (\<forall>j < n_labels m. mask_count m j = 1) \<and>
         (\<forall>i < n_groups m. \<exists>j < n_labels m. in_mask (groups_index m ! i) j)"
proof -
  from init_groups[OF assms(1,2)] obtain lg' where
    l: "labels_groups_arg a = Some lg'" and
    s': "set lg' = {0 ..< int (n_groups m)}" and
    gi': "groups_index m = map (\<lambda>i. map (\<lambda>l. l = int i) lg') [0..<n_groups m]" and
    nl': "n_labels m = last (num_classes_arg a)"
    by blast
  from l assms(3) have eq: "lg' = lg" by simp
  note s = s'[unfolded eq] and gi = gi'[unfolded eq]
  have nl: "n_labels m = length lg" using nl' assms(4) by simp
  have 1: "length (groups_index m) = n_groups m" by (simp add: gi)
  have 2: "\<forall>j < n_labels m. mask_count m j = 1"
    using mask_count_one[OF gi s] by (simp add: mask_count_def nl)
  have 3: "\<forall>i < n_groups m. \<exists>j < n_labels m. in_mask (groups_index m ! i) j"
  proof (intro allI impI)
    fix i assume i: "i < n_groups m"
    from mask_nonempty[OF s i] obtain j where "in_mask (map (\<lambda>l. l = int i) lg) j" ..
    moreover from this have "j < length lg" by (simp add: in_mask_def)
    ultimately show "\<exists>j < n_labels m. in_mask (groups_index m ! i) j"
      using i by (auto simp: gi nl)
  qed
  from 1 2 3 show ?thesis by blast
qed

theorem groups_index_partition_witness:
  "SCHANVAE_init \<lparr>num_classes_arg = [2, 3], y_prior_arg = Some [[1 / 2, 1 / 4, 1 / 4]],
       labels_groups_arg = Some [1, 0, 1], use_labels_groups_arg = True,
       n_version_arg = 1\<rparr> =
     Inr \<lparr>n_version = 1, num_classes = [2, 3], n_labels = 3,
          y_prior = [[1 / 2, 1 / 4, 1 / 4]], use_labels_groups = True,
          labels_groups = Some [1, 0, 1], n_groups = 2,
          groups_index = [[False, True, False], [True, False, True]]\<rparr> \<and>
   mask_count \<lparr>n_version = 1, num_classes = [2, 3], n_labels = 3,
          y_prior = [[1 / 2, 1 / 4, 1 / 4]], use_labels_groups = True,
          labels_groups = Some [1, 0, 1], n_groups = 2,
          groups_index = [[False, True, False], [True, False, True]]\<rparr> 2 = 1"
proof -
  have run: "SCHANVAE_init \<lparr>num_classes_arg = [2, 3],
       y_prior_arg = Some [[1 / 2, 1 / 4, 1 / 4]],
       labels_groups_arg = Some [1, 0, 1], use_labels_groups_arg = True,
       n_version_arg = 1\<rparr> =
     Inr \<lparr>n_version = 1, num_classes = [2, 3], n_labels = 3,
          y_prior = [[1 / 2, 1 / 4, 1 / 4]], use_labels_groups = True,
          labels_groups = Some [1, 0, 1], n_groups = 2,
          groups_index = [[False, True, False], [True, False, True]]\<rparr>"
    by (simp add: SCHANVAE_init_def np_unique_def np_arange_def numeral_2_eq_2)
  from groups_index_partition [OF run, of "[1, 0, 1]"] run show ?thesis
    by simp
qed


section \<open>Properties of SCHANVAE.classify\<close>

lemma masked_assign_length: "length (masked_assign gm xs vs) = length xs"
  by (induction gm xs vs rule: masked_assign.induct) simp_all

lemma masked_select_length:
  "length gm = length xs \<Longrightarrow> length (masked_select gm xs) = length (filter id gm)"
  by (induction gm xs rule: list_induct2) (simp_all add: masked_select_def)

lemma masked_select_map:
  "masked_select gm (map f xs) = map f (masked_select gm xs)"
proof (induction gm arbitrary: xs)
  case Nil
  then show ?case by (simp add: masked_select_def)
next
  case (Cons g gm)
  then show ?case by (cases xs) (simp_all add: masked_select_def)
qed

lemma masked_select_assign:
  "length gm = length xs \<Longrightarrow> length vs = length (filter id gm) \<Longrightarrow>
   masked_select gm (masked_assign gm xs vs) = vs"
proof (induction gm arbitrary: xs vs)
  case Nil
  then show ?case by (simp add: masked_select_def)
next
  case (Cons g gm)
  from Cons.prems(1) obtain x xs' where xs: "xs = x # xs'" by (cases xs) auto
  show ?case
  proof (cases g)
    case True
    with Cons.prems(2) obtain v vs' where vs: "vs = v # vs'" by (cases vs) auto
    from Cons.IH[of xs' vs'] Cons.prems True show ?thesis
      by (simp add: xs vs masked_select_def)
  next
    case False
    from Cons.IH[of xs' vs] Cons.prems False show ?thesis
      by (simp add: xs masked_select_def)
  qed
qed

lemma masked_select_assign_disj:
  "length gm = length xs \<Longrightarrow> disj_masks gk gm \<Longrightarrow>
   masked_select gk (masked_assign gm xs vs) = masked_select gk xs"
proof (induction gm arbitrary: xs vs gk)
  case Nil
  then show ?case by simp
next
  case (Cons g gm)
  from Cons.prems(1) obtain x xs' where xs: "xs = x # xs'" by (cases xs) auto
  from Cons.prems(2) obtain k gk' where gk: "gk = k # gk'" and nk: "\<not> (k \<and> g)"
    and d: "disj_masks gk' gm"
    by (cases gk) (auto simp: disj_masks_def)
  from Cons.prems(1) have len: "length gm = length xs'" by (simp add: xs)
  show ?case
  proof (cases g)
    case True
    show ?thesis
    proof (cases vs)
      case Nil
      then show ?thesis by (simp add: xs True)
    next
      case (Cons v vs')
      with Cons.IH[OF len d, of vs'] True nk show ?thesis
        by (simp add: xs gk masked_select_def)
    qed
  next
    case False
    with Cons.IH[OF len d, of vs] show ?thesis
      by (simp add: xs gk masked_select_def)
  qed
qed

lemma group_row_length:
  "length (group_row gi i u g w) = length w"
  by (simp add: group_row_def Let_def masked_assign_length)

lemma group_row_select:
  assumes "length gi = length u" "length gi = length w"
  shows "masked_select gi (group_row gi i u g w) =
         map (\<lambda>v. v / (sum_list (masked_select gi u) + 1 / 10 ^ 8) * g ! i) (masked_select gi u)"
proof -
  let ?vs = "map (\<lambda>v. v / (sum_list (masked_select gi u) + 1 / 10 ^ 8)) (masked_select gi u)"
  have l1: "length ?vs = length (filter id gi)"
    using assms(1) by (simp add: masked_select_length)
  have s1: "masked_select gi (masked_assign gi w ?vs) = ?vs"
    using assms(2) l1 by (rule masked_select_assign)
  have l2: "length gi = length (masked_assign gi w ?vs)"
    using assms(2) by (simp add: masked_assign_length)
  have "masked_select gi (group_row gi i u g w) = map (\<lambda>v. v * g ! i) ?vs"
    unfolding group_row_def Let_def s1
    by (rule masked_select_assign[OF l2]) (simp add: masked_select_length[OF assms(1)])
  then show ?thesis by (simp add: o_def)
qed

lemma group_row_disj:
  assumes "length gi = length w" "disj_masks gk gi"
  shows "masked_select gk (group_row gi i u g w) = masked_select gk w"
proof -
  have "length gi = length (masked_assign gi w vs)" for vs
    using assms(1) by (simp add: masked_assign_length)
  then show ?thesis
    unfolding group_row_def Let_def
    by (simp add: masked_select_assign_disj assms)
qed


lemma group_loop_shape:
  assumes "group_loop unw w_g gs w = Inr w'" "length w = length unw"
  shows "length w' = length unw"
  using assms
proof (induction gs arbitrary: w)
  case Nil
  then show ?case by simp
next
  case (Cons p gs)
  obtain i gi where p: "p = (i, gi)" by (cases p)
  from Cons.prems(1) have
    lw: "length w_g = length unw" and
    rest: "group_loop unw w_g gs (map (\<lambda>(w, u, g). group_row gi i u g w) (zip w (zip unw w_g))) = Inr w'"
    by (auto simp: p split: if_splits)
  show ?case
    by (rule Cons.IH[OF rest]) (simp add: lw Cons.prems(2))
qed

lemma group_loop_rows:
  assumes "group_loop unw w_g gs w = Inr w'" "length w = length unw"
    "\<forall>r \<in> set w. length r = L"
  shows "\<forall>r \<in> set w'. length r = L"
  using assms
proof (induction gs arbitrary: w)
  case Nil
  then show ?case by simp
next
  case (Cons p gs)
  obtain i gi where p: "p = (i, gi)" by (cases p)
  let ?w1 = "map (\<lambda>(w, u, g). group_row gi i u g w) (zip w (zip unw w_g))"
  from Cons.prems(1) have
    lw: "length w_g = length unw" and
    rest: "group_loop unw w_g gs ?w1 = Inr w'"
    by (auto simp: p split: if_splits)
  have "\<forall>r \<in> set ?w1. length r = L"
    using Cons.prems(3) by (auto simp: group_row_length dest!: set_zip_leftD)
  moreover have "length ?w1 = length unw" by (simp add: lw Cons.prems(2))
  ultimately show ?case using Cons.IH[OF rest] by blast
qed

lemma group_loop_preserves:
  assumes "group_loop unw w_g gs w = Inr w'" "length w = length unw"
    "\<forall>r \<in> set w. length r = L" "\<forall>r \<in> set unw. length r = L"
    "\<forall>p \<in> set gs. disj_masks gk (snd p)" "b < length unw"
  shows "masked_select gk (w' ! b) = masked_select gk (w ! b)"
  using assms
proof (induction gs arbitrary: w)
  case Nil
  then show ?case by simp
next
  case (Cons p gs)
  obtain i gi where p: "p = (i, gi)" by (cases p)
  let ?w1 = "map (\<lambda>(w, u, g). group_row gi i u g w) (zip w (zip unw w_g))"
  from Cons.prems(1) have
    lw: "length w_g = length unw" and
    lg: "\<forall>r \<in> set unw. length r = length gi" and
    rest: "group_loop unw w_g gs ?w1 = Inr w'"
    by (auto simp: p list_ex_iff split: if_splits)
  have len1: "length ?w1 = length unw" by (simp add: lw Cons.prems(2))
  have rows1: "\<forall>r \<in> set ?w1. length r = L"
    using Cons.prems(3) by (auto simp: group_row_length dest!: set_zip_leftD)
  have d: "\<forall>p \<in> set gs. disj_masks gk (snd p)" using Cons.prems(5) by simp
  have "masked_select gk (w' ! b) = masked_select gk (?w1 ! b)"
    by (rule Cons.IH[OF rest len1 rows1 Cons.prems(4) d Cons.prems(6)])
  moreover have "?w1 ! b = group_row gi i (unw ! b) (w_g ! b) (w ! b)"
    using Cons.prems(2,6) lw by simp
  moreover have "length gi = length (w ! b)"
    using Cons.prems(2,3,4,6) lg by (metis nth_mem)
  moreover have "disj_masks gk gi" using Cons.prems(5) by (simp add: p)
  ultimately show ?case by (simp add: group_row_disj)
qed

lemma group_loop_establishes:
  assumes "group_loop unw w_g gs w = Inr w'" "length w = length unw"
    "\<forall>r \<in> set w. length r = L" "\<forall>r \<in> set unw. length r = L"
    "distinct (map fst gs)"
    "\<forall>p \<in> set gs. \<forall>q \<in> set gs. fst p \<noteq> fst q \<longrightarrow> disj_masks (snd p) (snd q)"
    "b < length unw" "(i, gi) \<in> set gs"
  shows "masked_select gi (w' ! b) =
         map (\<lambda>v. v / (sum_list (masked_select gi (unw ! b)) + 1 / 10 ^ 8) * w_g ! b ! i)
           (masked_select gi (unw ! b))"
  using assms
proof (induction gs arbitrary: w)
  case Nil
  then show ?case by simp
next
  case (Cons p gs)
  obtain k gk where p: "p = (k, gk)" by (cases p)
  let ?w1 = "map (\<lambda>(w, u, g). group_row gk k u g w) (zip w (zip unw w_g))"
  from Cons.prems(1) have
    lw: "length w_g = length unw" and
    lg: "\<forall>r \<in> set unw. length r = length gk" and
    rest: "group_loop unw w_g gs ?w1 = Inr w'"
    by (auto simp: p list_ex_iff split: if_splits)
  have len1: "length ?w1 = length unw" by (simp add: lw Cons.prems(2))
  have rows1: "\<forall>r \<in> set ?w1. length r = L"
    using Cons.prems(3) by (auto simp: group_row_length dest!: set_zip_leftD)
  have nb: "?w1 ! b = group_row gk k (unw ! b) (w_g ! b) (w ! b)"
    using Cons.prems(2,7) lw by simp
  have lu: "length gk = length (unw ! b)" using lg Cons.prems(7) by simp
  have lwb: "length gk = length (w ! b)"
    using Cons.prems(2,3,4,7) lg by (metis nth_mem)
  show ?case
  proof (cases "(i, gi) = (k, gk)")
    case True
    have "\<forall>q \<in> set gs. disj_masks gk (snd q)"
    proof
      fix q assume q: "q \<in> set gs"
      then have "fst q \<noteq> k" using Cons.prems(5) by (auto simp: p)
      with q Cons.prems(6) show "disj_masks gk (snd q)" by (auto simp: p)
    qed
    then have "masked_select gk (w' ! b) = masked_select gk (?w1 ! b)"
      by (rule group_loop_preserves[OF rest len1 rows1 Cons.prems(4) _ Cons.prems(7)])
    also have "\<dots> = map (\<lambda>v. v / (sum_list (masked_select gk (unw ! b)) + 1 / 10 ^ 8) * w_g ! b ! k)
           (masked_select gk (unw ! b))"
      unfolding nb by (rule group_row_select[OF lu lwb])
    finally show ?thesis using True by simp
  next
    case False
    then have mem: "(i, gi) \<in> set gs" using Cons.prems(8) by (auto simp: p)
    have d: "distinct (map fst gs)" using Cons.prems(5) by simp
    have pw: "\<forall>p \<in> set gs. \<forall>q \<in> set gs. fst p \<noteq> fst q \<longrightarrow> disj_masks (snd p) (snd q)"
      using Cons.prems(6) by simp
    show ?thesis
      by (rule Cons.IH[OF rest len1 rows1 Cons.prems(4) d pw Cons.prems(7) mem])
  qed
qed


lemma constructor_masks:
  assumes "gs = zip [0..<ng] (map (\<lambda>i. map (\<lambda>l. l = int i) lg) [0..<ng])"
  shows "distinct (map fst gs)"
    and "\<forall>p \<in> set gs. \<forall>q \<in> set gs. fst p \<noteq> fst q \<longrightarrow> disj_masks (snd p) (snd q)"
    and "i < ng \<Longrightarrow> (i, map (\<lambda>l. l = int i) lg) \<in> set gs"
proof -
  have gs: "gs = map (\<lambda>i. (i, map (\<lambda>l. l = int i) lg)) [0..<ng]"
    unfolding assms by (rule nth_equalityI) simp_all
  show "distinct (map fst gs)" by (simp add: gs o_def)
  show "\<forall>p \<in> set gs. \<forall>q \<in> set gs. fst p \<noteq> fst q \<longrightarrow> disj_masks (snd p) (snd q)"
    by (auto simp: gs disj_masks_def list_all2_conv_all_nth)
  show "i < ng \<Longrightarrow> (i, map (\<lambda>l. l = int i) lg) \<in> set gs"
    by (auto simp: gs)
qed

lemma sum_list_scaled:
  "sum_list (map (\<lambda>v. v / d * c) xs) = c * (sum_list xs / d)" for c d :: real
  by (induction xs) (simp_all add: algebra_simps add_divide_distrib)

lemma init_groups_index:
  assumes "SCHANVAE_init a = Inr m" "use_labels_groups_arg a"
  shows "\<exists>lg. groups_index m = map (\<lambda>i. map (\<lambda>l. l = int i) lg) [0..<n_groups m] \<and>
          use_labels_groups m"
proof -
  from assms obtain lg where lg: "labels_groups_arg a = Some lg"
    by (cases "labels_groups_arg a") (auto simp: SCHANVAE_init_def Let_def split: if_splits)
  from assms lg have
    "groups_index m = map (\<lambda>i. map (\<lambda>l. l = int i) lg) [0..<n_groups m]"
    "use_labels_groups m"
    by (auto simp: SCHANVAE_init_def Let_def split: if_splits)
  then show ?thesis by blast
qed

text \<open>
  C6, as stated, fails: the grouped output of a row does not sum to 1 over the
  members of a group.  For three labels in the groups \<open>{0, 1}\<close> and \<open>{2}\<close>, a
  classifier output \<open>(1/2, 1/4, 1/4)\<close> and group probabilities \<open>(3/4, 1/4)\<close>, the
  entries of group 0 sum to less than \<open>3/4\<close>.
\<close>

theorem classify_group_sum_counterexample:
  "SCHANVAE_init \<lparr>num_classes_arg = [2, 3], y_prior_arg = None,
       labels_groups_arg = Some [0, 0, 1], use_labels_groups_arg = True,
       n_version_arg = 0\<rparr> = Inr grouped_model \<and>
   classify grouped_model grouped_networks [[1]] None None None =
     Inr [[37500000 / 75000001, 18750000 / 75000001, 6250000 / 25000001]] \<and>
   group_sum grouped_model 0
     [37500000 / 75000001, 18750000 / 75000001, 6250000 / 25000001] < 3 / 4"
proof -
  have 1: "SCHANVAE_init \<lparr>num_classes_arg = [2, 3], y_prior_arg = None,
       labels_groups_arg = Some [0, 0, 1], use_labels_groups_arg = True,
       n_version_arg = 0\<rparr> = Inr grouped_model"
    by (simp add: SCHANVAE_init_def np_unique_def np_arange_def grouped_model_def
        numeral_2_eq_2 numeral_3_eq_3)
  have 2: "classify grouped_model grouped_networks [[1]] None None None =
     Inr [[37500000 / 75000001, 18750000 / 75000001, 6250000 / 25000001]]"
    by (simp add: classify_def classify_latent_def bind_err_def grouped_model_def
        grouped_networks_def group_row_def masked_select_def Let_def upt_conv_Cons)
  have 3: "group_sum grouped_model 0
     [37500000 / 75000001, 18750000 / 75000001, 6250000 / 25000001] < 3 / 4"
    by (simp add: group_sum_def grouped_model_def masked_select_def)
  from 1 2 3 show ?thesis by blast
qed

text \<open>
  C6, amended.  When label groups are used, each row of the output of \<open>classify\<close>,
  restricted to the member labels of group \<open>i\<close>, sums to
  \<open>w_g[i] * S / (S + 1e-8)\<close>, where \<open>w_g[i]\<close> is the group classifier's probability of
  the group and \<open>S\<close> the sum of the (non-negative) label classifier outputs over the
  group's members: the mass of a group is the probability of the group, not 1.
\<close>

theorem classify_group_sum:
  assumes init: "SCHANVAE_init a = Inr m" and ug: "use_labels_groups_arg a"
    and lat: "classify_latent nets x0 bi cc kc = Inr zl"
    and cl: "classify m nets x0 bi cc kc = Inr w_y"
    and b: "b < length w_y" and i: "i < n_groups m"
    and nonneg: "\<forall>v \<in> set (classifier nets zl ! b). 0 \<le> v"
  shows "group_sum m i (w_y ! b) =
         classifier_groups nets zl ! b ! i *
           (group_sum m i (classifier nets zl ! b) /
              (group_sum m i (classifier nets zl ! b) + 1 / 10 ^ 8))"
proof -
  from init_groups_index[OF init ug] obtain lg where
    gi: "groups_index m = map (\<lambda>i. map (\<lambda>l. l = int i) lg) [0..<n_groups m]" and
    um: "use_labels_groups m"
    by blast
  let ?unw = "classifier nets zl" and ?wg = "classifier_groups nets zl"
  let ?gs = "zip [0..<length (groups_index m)] (groups_index m)"
  let ?w0 = "map (map (\<lambda>v. 0::real)) ?unw"
  let ?gi = "map (\<lambda>l. l = int i) lg"
  have gs: "?gs = zip [0..<n_groups m] (map (\<lambda>i. map (\<lambda>l. l = int i) lg) [0..<n_groups m])"
    by (simp add: gi)
  from cl lat um have loop: "group_loop ?unw ?wg ?gs ?w0 = Inr w_y"
    by (simp add: classify_def bind_err_def Let_def)
  have len0: "length ?w0 = length ?unw" by simp
  have lenw: "length w_y = length ?unw" by (rule group_loop_shape[OF loop len0])
  then have b': "b < length ?unw" using b by simp
  have mem: "(i, ?gi) \<in> set ?gs" unfolding gs by (rule constructor_masks(3)[OF refl i])
  have rows: "\<forall>r \<in> set ?unw. length r = length lg"
    using loop mem i unfolding gs
    by (cases "n_groups m") (auto simp: upt_conv_Cons list_ex_iff split: if_splits simp del: upt_Suc)
  have rows0: "\<forall>r \<in> set ?w0. length r = length lg" using rows by auto
  have sel: "masked_select ?gi (w_y ! b) =
         map (\<lambda>v. v / (sum_list (masked_select ?gi (?unw ! b)) + 1 / 10 ^ 8) * ?wg ! b ! i)
           (masked_select ?gi (?unw ! b))"
    by (rule group_loop_establishes[OF loop len0 rows0 rows
          constructor_masks(1)[OF gs] constructor_masks(2)[OF gs] b' mem])
  have nth: "groups_index m ! i = ?gi" using i by (simp add: gi)
  show ?thesis
    unfolding group_sum_def nth sel by (rule sum_list_scaled)
qed


theorem classify_group_sum_witness:
  "classify grouped_model grouped_networks [[1]] None None None =
     Inr [[37500000 / 75000001, 18750000 / 75000001, 6250000 / 25000001]] \<and>
   group_sum grouped_model 0
     [37500000 / 75000001, 18750000 / 75000001, 6250000 / 25000001] =
     3 / 4 * (3 / 4 / (3 / 4 + 1 / 10 ^ 8))"
proof -
  have init: "SCHANVAE_init \<lparr>num_classes_arg = [2, 3], y_prior_arg = None,
       labels_groups_arg = Some [0, 0, 1], use_labels_groups_arg = True,
       n_version_arg = 0\<rparr> = Inr grouped_model"
    by (simp add: SCHANVAE_init_def np_unique_def np_arange_def grouped_model_def
        numeral_2_eq_2 numeral_3_eq_3)
  have lat: "classify_latent grouped_networks [[1]] None None None = Inr [[1]]"
    by (simp add: classify_latent_def bind_err_def grouped_networks_def)
  have cl: "classify grouped_model grouped_networks [[1]] None None None =
     Inr [[37500000 / 75000001, 18750000 / 75000001, 6250000 / 25000001]]"
    by (simp add: classify_def classify_latent_def bind_err_def grouped_model_def
        grouped_networks_def group_row_def masked_select_def Let_def upt_conv_Cons)
  have cls: "classifier grouped_networks [[1]] = [[1 / 2, 1 / 4, 1 / 4]]"
    and clg: "classifier_groups grouped_networks [[1]] = [[3 / 4, 1 / 4]]"
    by (simp_all add: grouped_networks_def)
  have s: "group_sum grouped_model 0 [1 / 2, 1 / 4, 1 / 4] = 3 / 4"
    by (simp add: group_sum_def grouped_model_def masked_select_def)
  have "group_sum grouped_model 0
          ([[37500000 / 75000001, 18750000 / 75000001, 6250000 / 25000001]] ! 0) =
        classifier_groups grouped_networks [[1]] ! 0 ! 0 *
          (group_sum grouped_model 0 (classifier grouped_networks [[1]] ! 0) /
             (group_sum grouped_model 0 (classifier grouped_networks [[1]] ! 0) + 1 / 10 ^ 8))"
    by (rule classify_group_sum [OF init _ lat cl])
      (simp_all add: grouped_model_def cls)
  then have "group_sum grouped_model 0
          [37500000 / 75000001, 18750000 / 75000001, 6250000 / 25000001] =
        3 / 4 * (3 / 4 / (3 / 4 + 1 / 10 ^ 8))"
    unfolding cls clg by (simp only: nth_Cons_0 s)
  with cl show ?thesis by blast
qed


section \<open>Properties of SCHANVAE.loss\<close>

subsection \<open>The marginal branch on a well-shaped batch\<close>

lemma bind_err_simps [simp]:
  "bind_err (Inr v) f = f v" "bind_err (Inl e) f = Inl e"
  by (simp_all add: bind_err_def)

lemma map2_upt:
  "length p = n \<Longrightarrow> map2 f (map g [0..<n]) p = map (\<lambda>c. f (g c) (p ! c)) [0..<n]"
  by (rule nth_equalityI) simp_all

lemma map2_upt_upt:
  "map2 f (map g [0..<n]) (map h [0..<n]) = map (\<lambda>c. f (g c) (h c)) [0..<n]"
  by (rule nth_equalityI) simp_all

lemma as_map_upt: "length xs = n \<Longrightarrow> xs = map (\<lambda>b. xs ! b) [0..<n]"
  by (rule nth_equalityI) simp_all

lemma view_t_value:
  assumes "0 < n" "length xs = n * B"
  shows "view_t n xs = Inr (map (\<lambda>b. map (\<lambda>c. xs ! (c * B + b)) [0..<n]) [0..<B])"
  using assms by (simp add: view_t_def)

lemma weighted_by_value:
  assumes "0 < n" "length xs = n * B" "length probs = B" "list_all (\<lambda>r. length r = n) probs"
  shows "weighted_by n xs probs = Inr (map (marginalized n B xs probs) [0..<B])"
proof -
  let ?V = "map (\<lambda>b. map (\<lambda>c. xs ! (c * B + b)) [0..<n]) [0..<B]"
  have rows: "\<And>b. b < B \<Longrightarrow> length (probs ! b) = n"
    using assms(3,4) by (simp add: list_all_length)
  have sh: "same_shape ?V probs"
    using assms(3) rows by (simp add: same_shape_def list_all2_conv_all_nth)
  have "map sum_list (map2 (map2 (*)) ?V probs) = map (marginalized n B xs probs) [0..<B]"
  proof (rule nth_equalityI)
    show "length (map sum_list (map2 (map2 (*)) ?V probs)) =
          length (map (marginalized n B xs probs) [0..<B])"
      using assms(3) by simp
  next
    fix b assume "b < length (map sum_list (map2 (map2 (*)) ?V probs))"
    then have b: "b < B" using assms(3) by simp
    then show "map sum_list (map2 (map2 (*)) ?V probs) ! b =
          map (marginalized n B xs probs) [0..<B] ! b"
      using assms(3) rows[OF b] by (simp add: marginalized_def map2_upt)
  qed
  then show ?thesis
    using sh by (simp add: weighted_by_def view_t_value[OF assms(1,2)] mat_zip_with_def)
qed

lemma kl_cat_value:
  assumes "length probs = B" "list_all (\<lambda>r. length r = n) probs" "length prior = n"
  shows "kl_divergence_cat_of probs [prior] =
         Inr (map (\<lambda>b. kl_categorical (probs ! b) prior) [0..<B])"
proof -
  have rep: "concat (replicate (length probs) [prior]) = replicate B prior"
    using assms(1) by (induction B arbitrary: probs) (auto simp: length_Suc_conv)
  have sh: "same_shape probs (replicate B prior)"
    using assms by (simp add: same_shape_def list_all2_conv_all_nth list_all_length)
  have "map2 kl_categorical probs (replicate B prior) =
        map (\<lambda>b. kl_categorical (probs ! b) prior) [0..<B]"
    using assms(1) by (intro nth_equalityI) simp_all
  then show ?thesis
    using sh assms(1) by (simp add: kl_divergence_cat_of_def Let_def)
qed


lemma add_lib_value:
  assumes "case l of LScalar s \<Rightarrow> True | LVec v \<Rightarrow> length v = B"
  shows "add_lib (map k [0..<B]) l = Inr (map (\<lambda>b. k b + lib_at l b) [0..<B])"
proof (cases l)
  case (LScalar s)
  then show ?thesis by (simp add: add_lib_def lib_at_def)
next
  case (LVec v)
  with assms have "length v = B" by simp
  then have "map2 (+) (map k [0..<B]) v = map (\<lambda>b. k b + v ! b) [0..<B]"
    by (rule map2_upt)
  with LVec \<open>length v = B\<close> show ?thesis
    by (simp add: add_lib_def lib_at_def zip_with_def)
qed

lemma zip_with_upt:
  "zip_with f (map g [0..<B]) (map h [0..<B]) = Inr (map (\<lambda>b. f (g b) (h b)) [0..<B])"
  by (simp add: zip_with_def map2_upt_upt)

lemma zip_with_left:
  "length xs = B \<Longrightarrow> zip_with f xs (map h [0..<B]) = Inr (map (\<lambda>b. f (xs ! b) (h b)) [0..<B])"
  using zip_with_upt[of f "\<lambda>b. xs ! b" B h] as_map_upt[of xs B] by simp

lemma loss_marginal_value:
  assumes pr: "level_probs (classifier nets (z_sample io)) = Inr probs"
    and yp: "y_prior m = [prior]" and lp: "length prior = n_labels m"
    and sh: "batch_shaped (n_labels m) B t probs"
  shows "\<exists>r. loss_marginal m nets io t kw None cr = Inr r \<and>
             rec_loss r = marginal_objective (n_labels m) B t probs prior kw"
    and "n_version m = 0 \<Longrightarrow>
         \<exists>r. loss_marginal m nets io t kw (Some lt) (Some c) = Inr r \<and>
             rec_loss r = marginal_objective (n_labels m) B t probs prior kw
                          + classification_loss nets lt * c"
    and "n_version m \<noteq> 0 \<Longrightarrow>
         \<exists>r. loss_marginal m nets io t kw (Some lt) cr = Inr r \<and>
             rec_loss r = marginal_objective (n_labels m) B t probs prior kw"
proof -
  let ?n = "n_labels m"
  from sh have n: "0 < ?n" and lr: "length (reconst_loss t) = B"
    and lk: "length (kl_divergence_z2 t) = ?n * B"
    and ll: "case kl_divergence_l t of LScalar s \<Rightarrow> True | LVec v \<Rightarrow> length v = B"
    and lpb: "length probs = B" and rows: "list_all (\<lambda>r. length r = ?n) probs"
    and lw: "length (loss_z1_weight t) = B" and lu: "length (loss_z1_unweight t) = ?n * B"
    by (simp_all add: batch_shaped_def network_shaped_def)
  note w1 = weighted_by_value[OF n lu lpb rows]
  note w2 = weighted_by_value[OF n lk lpb rows]
  note kc = kl_cat_value[OF lpb rows lp]
  note s1 = zip_with_left[OF lw, of "(+)" "marginalized ?n B (loss_z1_unweight t) probs"]
  note s2 = zip_with_left[OF lr, of "(+)"
      "\<lambda>b. loss_z1_weight t ! b + marginalized ?n B (loss_z1_unweight t) probs b"]
  note s3 = zip_with_upt[of "(+)" "marginalized ?n B (kl_divergence_z2 t) probs" B
      "\<lambda>b. kl_categorical (probs ! b) prior"]
  note s4 = add_lib_value[OF ll, of "\<lambda>b. marginalized ?n B (kl_divergence_z2 t) probs b
      + kl_categorical (probs ! b) prior"]
  note s5 = zip_with_upt[of "\<lambda>r k. r + k * kw"
      "\<lambda>b. reconst_loss t ! b
          + (loss_z1_weight t ! b + marginalized ?n B (loss_z1_unweight t) probs b)" B
      "\<lambda>b. marginalized ?n B (kl_divergence_z2 t) probs b
          + kl_categorical (probs ! b) prior + lib_at (kl_divergence_l t) b"]
  note all = pr yp w1 w2 kc s1 s2 s3 s4 s5
  show "\<exists>r. loss_marginal m nets io t kw None cr = Inr r \<and>
             rec_loss r = marginal_objective (n_labels m) B t probs prior kw"
    by (simp add: loss_marginal_def all Let_def marginal_objective_def)
  show "n_version m = 0 \<Longrightarrow>
         \<exists>r. loss_marginal m nets io t kw (Some lt) (Some c) = Inr r \<and>
             rec_loss r = marginal_objective (n_labels m) B t probs prior kw
                          + classification_loss nets lt * c"
    by (simp add: loss_marginal_def all Let_def marginal_objective_def)
  show "n_version m \<noteq> 0 \<Longrightarrow>
         \<exists>r. loss_marginal m nets io t kw (Some lt) cr = Inr r \<and>
             rec_loss r = marginal_objective (n_labels m) B t probs prior kw"
    by (simp add: loss_marginal_def all Let_def marginal_objective_def)
qed


lemma loss_marginal_rec:
  assumes pr: "level_probs (classifier nets (z_sample io)) = Inr probs"
    and yp: "y_prior m = [prior]" and lp: "length prior = n_labels m"
    and sh: "batch_shaped (n_labels m) B t probs"
  shows "map_sum id rec_loss (loss_marginal m nets io t kw None cr) =
           Inr (marginal_objective (n_labels m) B t probs prior kw)"
    and "n_version m = 0 \<Longrightarrow>
         map_sum id rec_loss (loss_marginal m nets io t kw (Some lt) (Some c)) =
           Inr (marginal_objective (n_labels m) B t probs prior kw
                + classification_loss nets lt * c)"
    and "n_version m \<noteq> 0 \<Longrightarrow>
         map_sum id rec_loss (loss_marginal m nets io t kw (Some lt) cr) =
           Inr (marginal_objective (n_labels m) B t probs prior kw)"
  using loss_marginal_value(1)[OF assms, where kw = kw and cr = cr]
    loss_marginal_value(2)[OF assms, where kw = kw and lt = lt and c = c]
    loss_marginal_value(3)[OF assms, where kw = kw and lt = lt and cr = cr]
  by auto

lemma mat_zip_with_length:
  "mat_zip_with f A B = Inr C \<Longrightarrow> length C = length B \<and> length C = length A"
  by (auto simp: mat_zip_with_def same_shape_def split: if_splits)

lemma log_prob_rows_length:
  assumes "log_prob_rows a v xs = Inr k"
  shows "length k = length xs"
proof -
  from assms obtain p q where
    "mat_zip_with (\<lambda>(a, b) v. normal_log_prob a (sqrt b) v) p xs = Inr q" "k = map sum_list q"
    by (auto simp: log_prob_rows_def dest!: bind_err_Inr)
  then show ?thesis using mat_zip_with_length by fastforce
qed

lemma broadcast_unlabelled:
  "broadcast_labels None zs n =
     Inr (concat (map (\<lambda>c. replicate (length zs) (one_hot c n)) [0..<n]),
          concat (replicate n zs))"
  "length (concat (replicate n zs)) = n * length zs"
  "length (concat (map (\<lambda>c. replicate (length zs) (one_hot c n)) [0..<n])) = n * length zs"
  by (simp_all add: broadcast_labels_def length_concat sum_list_replicate o_def
      sum_list_triv)

lemma loss_terms_unlabelled_lengths:
  assumes "loss_terms_of m nets tn io gen False = Inr t"
  shows "length (loss_z1_weight t) = length (z_sample io)"
    and "length (loss_z1_unweight t) = n_labels m * length (z_sample io)"
proof -
  let ?ys = "concat (map (\<lambda>c. replicate (length (z_sample io)) (one_hot c (n_labels m)))
               [0..<n_labels m])"
  let ?zs = "concat (replicate (n_labels m) (z_sample io))"
  obtain a v z2 where enc: "encoder_z2_z1 nets ?zs ?ys = (a, v, z2)"
    by (cases "encoder_z2_z1 nets ?zs ?ys") auto
  obtain pm pv where dec: "decoder_z1_z2 nets z2 ?ys = (pm, pv)"
    by (cases "decoder_z1_z2 nets z2 ?ys") auto
  from assms obtain lu lw where
    lu: "log_prob_rows pm pv ?zs = Inr lu" and
    lw: "log_prob_rows (qz_m io) (qz_v io) (z_sample io) = Inr lw" and
    t: "loss_z1_weight t = lw" "loss_z1_unweight t = map uminus lu"
    by (auto simp: loss_terms_of_def fed_labels_def broadcast_unlabelled(1) enc dec Let_def
        dest!: bind_err_Inr)
  show "length (loss_z1_weight t) = length (z_sample io)"
    using log_prob_rows_length[OF lw] t by simp
  show "length (loss_z1_unweight t) = n_labels m * length (z_sample io)"
    using log_prob_rows_length[OF lu] t by (simp add: broadcast_unlabelled(2))
qed

lemma loss_terms_n_version:
  "loss_terms_of (m\<lparr>n_version := v\<rparr>) nets tn io gen fl = loss_terms_of m nets tn io gen fl"
  by (simp add: loss_terms_of_def)

lemma loss_terms_parts:
  assumes "loss_terms_of m nets tn io gen fl = Inr t"
  shows "reconst_loss t =
           get_reconstruction_loss nets (X_KEY tn) (px_rate gen) (px_r gen) (px_dropout gen)"
    and "use_observed_lib_size nets \<Longrightarrow> kl_divergence_l t = LScalar 0"
  using assms
  by (auto simp: loss_terms_of_def Let_def split: prod.splits dest!: bind_err_Inr)

subsection \<open>The two-label example\<close>

lemmas example_defs = two_label_model_def two_label_networks_def one_cell_def
  one_cell_inference_def one_cell_generative_def

lemmas eval_defs = loss_terms_of_def fed_labels_def broadcast_labels_def one_hot_def
  kl_normal_rows_def log_prob_rows_def mat_zip_with_def same_shape_def kl_normal_def
  normal_log_prob_def Let_def upt_conv_Cons numeral_2_eq_2

lemma ex_terms_unlabelled:
  "loss_terms_of two_label_model two_label_networks one_cell one_cell_inference
     one_cell_generative False =
   Inr \<lparr>reconst_loss = [0], loss_z1_weight = [- ln (sqrt (2 * pi))],
        loss_z1_unweight = [ln (sqrt (2 * pi)), ln (sqrt (2 * pi))],
        kl_divergence_z2 = [0, 0], kl_divergence_l = LScalar 0\<rparr>"
  by (simp add: example_defs eval_defs)

lemma ex_terms_labelled:
  "loss_terms_of two_label_model two_label_networks one_cell one_cell_inference
     one_cell_generative True =
   Inr \<lparr>reconst_loss = [0], loss_z1_weight = [- ln (sqrt (2 * pi))],
        loss_z1_unweight = [ln (sqrt (2 * pi))],
        kl_divergence_z2 = [0], kl_divergence_l = LScalar 0\<rparr>"
  by (simp add: example_defs eval_defs)

lemma ex_probs:
  "level_probs (classifier two_label_networks (z_sample one_cell_inference)) = Inr [one_hot 0 2]"
  by (simp add: example_defs level_probs_def one_hot_def upt_conv_Cons)

lemma kl_cat_ex: "kl_categorical [1, 0] [1 / 2, 1 / 2] = ln 2"
  by (simp add: kl_categorical_def normalize_def ln_div)

lemmas loss_defs = SCHANVAE_loss_def loss_marginal_def loss_of_means_def level_probs_def
  weighted_by_def view_t_def mat_zip_with_def same_shape_def zip_with_def
  kl_divergence_cat_of_def add_lib_def mean_def lib_mean_def numeral_2_eq_2

lemma ex_unlabelled_loss:
  "map_sum id rec_loss
     (SCHANVAE_loss two_label_model two_label_networks one_cell one_cell_inference
        one_cell_generative False 1 None None) = Inr (ln 2)"
  unfolding SCHANVAE_loss_def ex_terms_unlabelled
  by (simp add: example_defs loss_defs kl_cat_ex Let_def upt_conv_Cons)

lemma ex_labelled_v1:
  "map_sum id rec_loss
     (SCHANVAE_loss (two_label_model\<lparr>n_version := 1\<rparr>) two_label_networks one_cell
        one_cell_inference one_cell_generative True 1 (Some one_cell) (Some 0)) = Inr 0"
  unfolding SCHANVAE_loss_def loss_terms_n_version ex_terms_labelled
  by (simp add: example_defs loss_defs Let_def)

lemma ex_labelled_v0_fed:
  "SCHANVAE_loss two_label_model two_label_networks one_cell
        one_cell_inference one_cell_generative True 1 (Some one_cell) (Some 0) = Inl RuntimeError"
  unfolding SCHANVAE_loss_def ex_terms_labelled
  by (simp add: example_defs loss_defs Let_def)

lemma ex_v1:
  "map_sum id rec_loss
     (SCHANVAE_loss (two_label_model\<lparr>n_version := 1\<rparr>) two_label_networks one_cell
        one_cell_inference one_cell_generative False 1 (Some one_cell) (Some 1)) = Inr 1"
  unfolding SCHANVAE_loss_def loss_terms_n_version ex_terms_unlabelled
  by (simp add: example_defs loss_defs Let_def)

lemma ex_v0:
  "map_sum id rec_loss
     (SCHANVAE_loss (two_label_model\<lparr>n_version := 0\<rparr>) two_label_networks one_cell
        one_cell_inference one_cell_generative False 1 (Some one_cell) (Some 1)) = Inr (ln 2 + 1)"
  unfolding SCHANVAE_loss_def loss_terms_n_version ex_terms_unlabelled
  by (simp add: example_defs loss_defs kl_cat_ex Let_def upt_conv_Cons)

lemma ex_model_facts:
  "n_labels two_label_model = 2" "y_prior two_label_model = [[1 / 2, 1 / 2]]"
  "n_labels (two_label_model\<lparr>n_version := v\<rparr>) = 2"
  "y_prior (two_label_model\<lparr>n_version := v\<rparr>) = [[1 / 2, 1 / 2]]"
  "n_version two_label_model = 0"
  "length (z_sample one_cell_inference) = 1"
  by (simp_all add: two_label_model_def one_cell_inference_def)

lemma ex_shaped:
  "batch_shaped 2 1
     \<lparr>reconst_loss = [0], loss_z1_weight = [- ln (sqrt (2 * pi))],
      loss_z1_unweight = [ln (sqrt (2 * pi)), ln (sqrt (2 * pi))],
      kl_divergence_z2 = [0, 0], kl_divergence_l = LScalar 0\<rparr> [one_hot 0 2]"
  by (simp add: batch_shaped_def network_shaped_def one_hot_def)

lemma ex_marginal_objective:
  "marginal_objective 2 (Suc 0)
     \<lparr>reconst_loss = [0], loss_z1_weight = [- ln (sqrt (2 * pi))],
      loss_z1_unweight = [ln (sqrt (2 * pi)), ln (sqrt (2 * pi))],
      kl_divergence_z2 = [0, 0], kl_divergence_l = LScalar 0\<rparr> [one_hot 0 2] [1 / 2, 1 / 2] kw
   = ln 2 * kw"
  by (simp add: marginal_objective_def marginalized_def mean_def lib_at_def one_hot_def
      upt_conv_Cons numeral_2_eq_2 kl_cat_ex[unfolded numeral_2_eq_2])

lemma ex_means_objective:
  "means_objective
     \<lparr>reconst_loss = [0], loss_z1_weight = [- ln (sqrt (2 * pi))],
      loss_z1_unweight = [ln (sqrt (2 * pi)), ln (sqrt (2 * pi))],
      kl_divergence_z2 = [0, 0], kl_divergence_l = LScalar 0\<rparr> kw = 0"
  by (simp add: means_objective_def mean_def lib_mean_def)


subsection \<open>The unlabelled loss\<close>

lemma init_default_prior:
  assumes "SCHANVAE_init a = Inr m" "y_prior_arg a = None"
  shows "y_prior m = [replicate (n_labels m) (1 / real (n_labels m))]"
  using assms
  by (auto simp: SCHANVAE_init_def Let_def split: if_splits option.splits)

lemma shaped_unlabelled:
  assumes "loss_terms_of m nets tn io gen False = Inr t"
    and "network_shaped (n_labels m) (length (z_sample io)) t probs"
  shows "batch_shaped (n_labels m) (length (z_sample io)) t probs"
  using assms loss_terms_unlabelled_lengths[OF assms(1)]
  by (simp add: batch_shaped_def)




subsection \<open>The labelled loss\<close>

lemma loss_v1_rec:
  assumes "loss_terms_of m nets tn io gen fl = Inr t" "n_version m = 1"
  shows "map_sum id rec_loss (SCHANVAE_loss m nets tn io gen fl kw (Some lt) (Some c)) =
         Inr (means_objective t kw + classification_loss nets lt * c)"
  using assms by (simp add: SCHANVAE_loss_def loss_of_means_def means_objective_def Let_def)

lemma loss_v0_rec:
  assumes terms: "loss_terms_of m nets tn io gen fl = Inr t" and v: "n_version m = 0"
    and pr: "level_probs (classifier nets (z_sample io)) = Inr probs"
    and yp: "y_prior m = [prior]" and lp: "length prior = n_labels m"
    and sh: "batch_shaped (n_labels m) B t probs"
  shows "map_sum id rec_loss (SCHANVAE_loss m nets tn io gen fl kw (Some lt) (Some c)) =
         Inr (marginal_objective (n_labels m) B t probs prior kw
              + classification_loss nets lt * c)"
proof -
  have "SCHANVAE_loss m nets tn io gen fl kw (Some lt) (Some c) =
        loss_marginal m nets io t kw (Some lt) (Some c)"
    using v by (simp add: SCHANVAE_loss_def terms)
  then show ?thesis using loss_marginal_rec(2)[OF pr yp lp sh v] by simp
qed

lemma kl_z2_standard_normal:
  assumes terms: "loss_terms_of m nets tn io gen fl = Inr t"
    and y: "fed_labels tn fl = Inr y"
    and bc: "broadcast_labels y (z_sample io) (n_labels m) = Inr (ys, z1s)"
    and enc: "encoder_z2_z1 nets z1s ys = (a, v, z2)"
  shows "kl_divergence_z2 t = map sum_list (map2 (map2 (\<lambda>mu var. kl_normal mu (sqrt var) 0 1)) a v)"
proof -
  obtain pm pv where dec: "decoder_z1_z2 nets z2 ys = (pm, pv)"
    by (cases "decoder_z1_z2 nets z2 ys") auto
  from terms have k: "kl_normal_rows a v (map (map (\<lambda>v. 0)) a) (map (map (\<lambda>v. 1)) v)
      = Inr (kl_divergence_z2 t)"
    by (auto simp: loss_terms_of_def y bc enc dec Let_def dest!: bind_err_Inr)
  then have sh: "same_shape a v"
    by (auto simp: kl_normal_rows_def mat_zip_with_def split: if_splits)
  have rowlen: "\<And>i. i < length a \<Longrightarrow> length (a ! i) = length (v ! i)"
    using sh by (simp add: same_shape_def list_all2_conv_all_nth)
  have la: "length a = length v" using sh by (simp add: same_shape_def)
  have s2: "same_shape (map (map (\<lambda>v. 0::real)) a) (map (map (\<lambda>v. 1::real)) v)"
    using sh by (simp add: same_shape_def list_all2_conv_all_nth)
  have s3: "same_shape (map2 (map2 Pair) a v)
              (map2 (map2 Pair) (map (map (\<lambda>v. 0::real)) a) (map (map (\<lambda>v. 1::real)) v))"
    using sh by (simp add: same_shape_def list_all2_conv_all_nth)
  have eq: "map2 (map2 (\<lambda>(a, b) (c, d). kl_normal a (sqrt b) c (sqrt d))) (map2 (map2 Pair) a v)
              (map2 (map2 Pair) (map (map (\<lambda>v. 0::real)) a) (map (map (\<lambda>v. 1::real)) v))
            = map2 (map2 (\<lambda>mu var. kl_normal mu (sqrt var) 0 1)) a v"
  proof (rule nth_equalityI)
    show "length (map2 (map2 (\<lambda>(a, b) (c, d). kl_normal a (sqrt b) c (sqrt d)))
             (map2 (map2 Pair) a v)
             (map2 (map2 Pair) (map (map (\<lambda>v. 0::real)) a) (map (map (\<lambda>v. 1::real)) v)))
          = length (map2 (map2 (\<lambda>mu var. kl_normal mu (sqrt var) 0 1)) a v)"
      using la by simp
  next
    fix i
    assume "i < length (map2 (map2 (\<lambda>(a, b) (c, d). kl_normal a (sqrt b) c (sqrt d)))
             (map2 (map2 Pair) a v)
             (map2 (map2 Pair) (map (map (\<lambda>v. 0::real)) a) (map (map (\<lambda>v. 1::real)) v)))"
    then have i: "i < length a" "i < length v" using la by simp_all
    have "map2 (\<lambda>(a, b) (c, d). kl_normal a (sqrt b) c (sqrt d)) (map2 Pair (a ! i) (v ! i))
            (map2 Pair (map (\<lambda>v. 0::real) (a ! i)) (map (\<lambda>v. 1::real) (v ! i)))
          = map2 (\<lambda>mu var. kl_normal mu (sqrt var) 0 1) (a ! i) (v ! i)"
      using rowlen[OF i(1)] by (intro nth_equalityI) simp_all
    then show "map2 (map2 (\<lambda>(a, b) (c, d). kl_normal a (sqrt b) c (sqrt d)))
             (map2 (map2 Pair) a v)
             (map2 (map2 Pair) (map (map (\<lambda>v. 0::real)) a) (map (map (\<lambda>v. 1::real)) v)) ! i
          = map2 (map2 (\<lambda>mu var. kl_normal mu (sqrt var) 0 1)) a v ! i"
      using i by simp
  qed
  have m1: "mat_zip_with Pair a v = Inr (map2 (map2 Pair) a v)"
    using sh unfolding mat_zip_with_def by (simp only: if_True)
  have m2: "mat_zip_with Pair (map (map (\<lambda>v. 0::real)) a) (map (map (\<lambda>v. 1::real)) v) =
      Inr (map2 (map2 Pair) (map (map (\<lambda>v. 0::real)) a) (map (map (\<lambda>v. 1::real)) v))"
    using s2 unfolding mat_zip_with_def by (simp only: if_True)
  have m3: "mat_zip_with (\<lambda>(a, b) (c, d). kl_normal a (sqrt b) c (sqrt d))
       (map2 (map2 Pair) a v)
       (map2 (map2 Pair) (map (map (\<lambda>v. 0::real)) a) (map (map (\<lambda>v. 1::real)) v)) =
      Inr (map2 (map2 (\<lambda>mu var. kl_normal mu (sqrt var) 0 1)) a v)"
    using s3 unfolding mat_zip_with_def eq by (simp only: if_True)
  have "kl_normal_rows a v (map (map (\<lambda>v. 0)) a) (map (map (\<lambda>v. 1)) v) =
      Inr (map sum_list (map2 (map2 (\<lambda>mu var. kl_normal mu (sqrt var) 0 1)) a v))"
    unfolding kl_normal_rows_def m1 m2 m3 bind_err_simps ..
  with k show ?thesis by simp
qed

lemma lib_parts:
  assumes "loss_terms_of m nets tn io gen fl = Inr t" "\<not> use_observed_lib_size nets"
  shows "map_sum id LVec
           (case compute_local_library_params nets (BATCH_KEY tn) of
              (lm, lv) \<Rightarrow> kl_normal_rows (ql_m io) (ql_v io) lm lv) =
         Inr (kl_divergence_l t)"
  using assms
  by (auto simp: loss_terms_of_def Let_def split: prod.splits dest!: bind_err_Inr)

lemma loss_other_version_rec:
  assumes terms: "loss_terms_of m nets tn io gen fl = Inr t"
    and v: "n_version m \<noteq> 0" "n_version m \<noteq> 1"
    and pr: "level_probs (classifier nets (z_sample io)) = Inr probs"
    and yp: "y_prior m = [prior]" and lp: "length prior = n_labels m"
    and sh: "batch_shaped (n_labels m) B t probs"
  shows "map_sum id rec_loss (SCHANVAE_loss m nets tn io gen fl kw (Some lt) cr) =
         Inr (marginal_objective (n_labels m) B t probs prior kw)"
proof -
  have "SCHANVAE_loss m nets tn io gen fl kw (Some lt) cr =
        loss_marginal m nets io t kw (Some lt) cr"
    using v(2) by (simp add: SCHANVAE_loss_def terms)
  then show ?thesis using loss_marginal_rec(3)[OF pr yp lp sh v(1)] by simp
qed

lemma ex_v2:
  "map_sum id rec_loss
     (SCHANVAE_loss (two_label_model\<lparr>n_version := 2\<rparr>) two_label_networks one_cell
        one_cell_inference one_cell_generative False 1 (Some one_cell) (Some 1)) = Inr (ln 2)"
  unfolding SCHANVAE_loss_def loss_terms_n_version ex_terms_unlabelled
  by (simp add: example_defs loss_defs kl_cat_ex Let_def upt_conv_Cons)

lemma ex_ratio_none:
  "SCHANVAE_loss (two_label_model\<lparr>n_version := 1\<rparr>) two_label_networks one_cell
     one_cell_inference one_cell_generative False 1 (Some one_cell) None = Inl TypeError"
  "SCHANVAE_loss (two_label_model\<lparr>n_version := 0\<rparr>) two_label_networks one_cell
     one_cell_inference one_cell_generative False 1 (Some one_cell) None = Inl TypeError"
  unfolding SCHANVAE_loss_def loss_terms_n_version ex_terms_unlabelled
  by (simp_all add: example_defs loss_defs kl_cat_ex Let_def upt_conv_Cons)







subsection \<open>Collapse of the probability mass\<close>

lemma sum_list_delta:
  "l < n \<Longrightarrow> (\<Sum>c\<leftarrow>[0..<n]. if c = l then f c else (0::real)) = f l"
  by (simp add: interv_sum_list_conv_sum_set_nat)

lemma sum_list_one_hot: "l < n \<Longrightarrow> sum_list (one_hot l n) = 1"
  using sum_list_delta[of l n "\<lambda>c. 1"] by (simp add: one_hot_def)

lemma marginalized_one_hot:
  assumes "b < length labels" "labels ! b < n"
  shows "marginalized n B xs (map (\<lambda>l. one_hot l n) labels) b = xs ! (labels ! b * B + b)"
proof -
  have "marginalized n B xs (map (\<lambda>l. one_hot l n) labels) b =
        (\<Sum>c\<leftarrow>[0..<n]. if c = labels ! b then xs ! (c * B + b) else 0)"
    unfolding marginalized_def using assms(1)
    by (intro arg_cong[where f = sum_list] map_cong) (auto simp: one_hot_def)
  then show ?thesis using sum_list_delta[OF assms(2)] by simp
qed

lemma marginal_collapse:
  assumes "length labels = B" "list_all (\<lambda>l. l < n) labels"
  shows "marginal_objective n B t (map (\<lambda>l. one_hot l n) labels) prior kw =
         collapsed_objective n B t labels prior kw"
proof -
  have "\<And>b. b < B \<Longrightarrow> labels ! b < n"
    using assms by (simp add: list_all_length)
  then show ?thesis
    unfolding marginal_objective_def collapsed_objective_def using assms(1)
    by (intro arg_cong[where f = mean] map_cong) (auto simp: marginalized_one_hot)
qed

lemma kl_one_hot_uniform:
  assumes "l < n"
  shows "kl_categorical (one_hot l n) (replicate n (1 / real n)) = ln (real n)"
proof -
  have n: "0 < n" using assms by simp
  have n1: "normalize (one_hot l n) = one_hot l n"
    by (simp add: normalize_def sum_list_one_hot[OF assms])
  have "sum_list (replicate n (1 / real n)) = 1"
    using n by (simp add: sum_list_replicate)
  then have n2: "normalize (replicate n (1 / real n)) = replicate n (1 / real n)"
    by (simp add: normalize_def)
  have "map2 (\<lambda>a b. if a = 0 then 0 else a * (ln a - ln b)) (one_hot l n)
          (replicate n (1 / real n)) =
        map (\<lambda>c. if c = l then ln (real n) else 0) [0..<n]"
    using n by (intro nth_equalityI) (auto simp: one_hot_def ln_div)
  then show ?thesis
    unfolding kl_categorical_def n1 n2 using sum_list_delta[OF assms, of "\<lambda>c. ln (real n)"]
    by simp
qed

text \<open>
  C4, as stated, fails.  On the two-label example the classifier puts all mass on
  the true label 0 of the cell.  The marginalised loss is \<open>ln 2\<close>, the categorical KL
  of the one-hot distribution from the uniform prior.  The loss with the label
  observed is \<open>0\<close> under \<open>n_version = 1\<close> (even with a classification ratio of zero)
  and a shape error under \<open>n_version = 0\<close>; the loss on labelled tensors without
  feeding the label is \<open>ln 2 + 1\<close>, the marginalised loss plus the classification
  term.
\<close>

theorem marginal_loss_collapse_counterexample:
  "level_probs (classifier two_label_networks (z_sample one_cell_inference)) =
     Inr [one_hot 0 2] \<and>
   fed_labels one_cell True = Inr (Some [0]) \<and>
   map_sum id rec_loss
     (SCHANVAE_loss two_label_model two_label_networks one_cell one_cell_inference
        one_cell_generative False 1 None None) = Inr (ln 2) \<and>
   map_sum id rec_loss
     (SCHANVAE_loss (two_label_model\<lparr>n_version := 1\<rparr>) two_label_networks one_cell
        one_cell_inference one_cell_generative True 1 (Some one_cell) (Some 0)) = Inr 0 \<and>
   SCHANVAE_loss two_label_model two_label_networks one_cell
        one_cell_inference one_cell_generative True 1 (Some one_cell) (Some 0)
     = Inl RuntimeError \<and>
   map_sum id rec_loss
     (SCHANVAE_loss two_label_model two_label_networks one_cell
        one_cell_inference one_cell_generative False 1 (Some one_cell) (Some 1))
     = Inr (ln 2 + 1) \<and>
   (0::real) < ln 2"
proof -
  have f: "fed_labels one_cell True = Inr (Some [0])"
    by (simp add: fed_labels_def one_cell_def)
  have v0: "map_sum id rec_loss
     (SCHANVAE_loss two_label_model two_label_networks one_cell
        one_cell_inference one_cell_generative False 1 (Some one_cell) (Some 1))
     = Inr (ln 2 + 1)"
    using ex_v0 by (simp add: two_label_model_def)
  have p: "(0::real) < ln 2" by simp
  from ex_probs f ex_unlabelled_loss ex_labelled_v1 ex_labelled_v0_fed v0 p
  show ?thesis by blast
qed


text \<open>
  C4, amended.  When the classifier puts all mass on one label per cell, the
  marginalised loss keeps, of the per-label terms of each cell, exactly those of that
  label: it is the batch mean of the reconstruction loss, \<open>loss_z1_weight\<close>, the
  label's \<open>loss_z1_unweight\<close>, and \<open>kl_weight\<close> times the label's \<open>kl_divergence_z2\<close>,
  the categorical KL of the one-hot distribution from the prior, and the library KL.
  Against the uniform prior that categorical KL is \<open>ln n_labels\<close> for every cell.
\<close>

theorem marginal_loss_collapse:
  assumes terms: "loss_terms_of m nets tn io gen False = Inr t"
    and pr: "level_probs (classifier nets (z_sample io)) =
               Inr (map (\<lambda>l. one_hot l (n_labels m)) labels)"
    and lab: "list_all (\<lambda>l. l < n_labels m) labels"
    and yp: "y_prior m = [prior]" and lp: "length prior = n_labels m"
    and sh: "network_shaped (n_labels m) (length (z_sample io)) t
               (map (\<lambda>l. one_hot l (n_labels m)) labels)"
  shows "map_sum id rec_loss (SCHANVAE_loss m nets tn io gen False kw None cr) =
           Inr (collapsed_objective (n_labels m) (length (z_sample io)) t labels prior kw) \<and>
         (prior = replicate (n_labels m) (1 / real (n_labels m)) \<longrightarrow>
            list_all (\<lambda>l. kl_categorical (one_hot l (n_labels m)) prior = ln (real (n_labels m)))
              labels)"
proof -
  from sh have len: "length labels = length (z_sample io)"
    by (simp add: network_shaped_def)
  have "SCHANVAE_loss m nets tn io gen False kw None cr = loss_marginal m nets io t kw None cr"
    by (simp add: SCHANVAE_loss_def terms)
  then have "map_sum id rec_loss (SCHANVAE_loss m nets tn io gen False kw None cr) =
      Inr (marginal_objective (n_labels m) (length (z_sample io)) t
             (map (\<lambda>l. one_hot l (n_labels m)) labels) prior kw)"
    using loss_marginal_rec(1)[OF pr yp lp shaped_unlabelled[OF terms sh]] by simp
  then have 1: "map_sum id rec_loss (SCHANVAE_loss m nets tn io gen False kw None cr) =
           Inr (collapsed_objective (n_labels m) (length (z_sample io)) t labels prior kw)"
    by (simp only: marginal_collapse[OF len lab])
  have 2: "prior = replicate (n_labels m) (1 / real (n_labels m)) \<longrightarrow>
            list_all (\<lambda>l. kl_categorical (one_hot l (n_labels m)) prior = ln (real (n_labels m)))
              labels"
    using lab by (auto simp: list_all_iff kl_one_hot_uniform)
  from 1 2 show ?thesis by blast
qed

theorem marginal_loss_collapse_witness:
  "map_sum id rec_loss
     (SCHANVAE_loss two_label_model two_label_networks one_cell one_cell_inference
        one_cell_generative False 3 None None) =
     Inr (collapsed_objective 2 1
       \<lparr>reconst_loss = [0], loss_z1_weight = [- ln (sqrt (2 * pi))],
        loss_z1_unweight = [ln (sqrt (2 * pi)), ln (sqrt (2 * pi))],
        kl_divergence_z2 = [0, 0], kl_divergence_l = LScalar 0\<rparr> [0] [1 / 2, 1 / 2] 3) \<and>
   collapsed_objective 2 1
       \<lparr>reconst_loss = [0], loss_z1_weight = [- ln (sqrt (2 * pi))],
        loss_z1_unweight = [ln (sqrt (2 * pi)), ln (sqrt (2 * pi))],
        kl_divergence_z2 = [0, 0], kl_divergence_l = LScalar 0\<rparr> [0] [1 / 2, 1 / 2] 3
     = ln 2 * 3 \<and>
   kl_categorical (one_hot 0 2) [1 / 2, 1 / 2] = ln 2"
proof -
  have pr: "level_probs (classifier two_label_networks (z_sample one_cell_inference)) =
      Inr (map (\<lambda>l. one_hot l (n_labels two_label_model)) [0])"
    using ex_probs by (simp add: ex_model_facts)
  have lab: "list_all (\<lambda>l. l < n_labels two_label_model) [0]"
    by (simp add: ex_model_facts)
  have sh: "network_shaped (n_labels two_label_model) (length (z_sample one_cell_inference))
     \<lparr>reconst_loss = [0], loss_z1_weight = [- ln (sqrt (2 * pi))],
      loss_z1_unweight = [ln (sqrt (2 * pi)), ln (sqrt (2 * pi))],
      kl_divergence_z2 = [0, 0], kl_divergence_l = LScalar 0\<rparr>
     (map (\<lambda>l. one_hot l (n_labels two_label_model)) [0])"
    using ex_shaped by (simp add: batch_shaped_def ex_model_facts)
  have lp: "length [1 / 2, 1 / 2 :: real] = n_labels two_label_model"
    by (simp add: ex_model_facts)
  have u: "[1 / 2, 1 / 2 :: real] =
      replicate (n_labels two_label_model) (1 / real (n_labels two_label_model))"
    by (simp add: ex_model_facts numeral_2_eq_2)
  have c: "collapsed_objective 2 (Suc 0)
       \<lparr>reconst_loss = [0], loss_z1_weight = [- ln (sqrt (2 * pi))],
        loss_z1_unweight = [ln (sqrt (2 * pi)), ln (sqrt (2 * pi))],
        kl_divergence_z2 = [0, 0], kl_divergence_l = LScalar 0\<rparr> [0] [1 / 2, 1 / 2] 3
     = ln 2 * 3"
    by (simp add: collapsed_objective_def mean_def lib_at_def one_hot_def upt_conv_Cons
        numeral_2_eq_2 kl_cat_ex[unfolded numeral_2_eq_2])
  from marginal_loss_collapse [OF ex_terms_unlabelled pr lab ex_model_facts(2) lp sh,
      where kw = 3 and cr = None] u c
  show ?thesis
    by (simp add: ex_model_facts)
qed

end
